theory Spec2Isabelle
  imports Main "HOL-Library.Monad_Syntax" "HOL-Library.Multiset"
begin

section \<open>JavaScript values\<close>

text \<open>
  The data-chat page and the chart component work on values decoded from JSON. A value
  is one of the JavaScript primitives, an array or a plain object. An object is the list
  of its own properties in enumeration order, with distinct keys. Numbers are integers
  of magnitude below \<open>10^21\<close> (JSON numbers with a fraction or beyond that bound, NaN
  and the infinities are outside the model), strings
  are lists of UTF-8 bytes, and properties inherited from a prototype (\<open>constructor\<close>,
  \<open>toString\<close>) are not modelled: a lookup sees own properties, the \<open>length\<close>
  of arrays and strings and their indices. Every exception the modelled code can raise is
  a TypeError; a computation that throws has the value \<open>None\<close>.
\<close>

datatype jsval =
    JUndefined
  | JNull
  | JBool bool
  | JNum int
  | JStr string
  | JArr "jsval list"
  | JObj "(string \<times> jsval) list"

text \<open>Truthiness, as \<open>if (v)\<close>, \<open>!v\<close>, \<open>a || b\<close> and \<open>filter(Boolean)\<close> use it.\<close>

fun truthy :: "jsval \<Rightarrow> bool" where
  "truthy JUndefined = False"
| "truthy JNull = False"
| "truthy (JBool b) = b"
| "truthy (JNum n) = (n \<noteq> 0)"
| "truthy (JStr s) = (s \<noteq> [])"
| "truthy (JArr xs) = True"
| "truthy (JObj kvs) = True"

text \<open>\<open>v == null\<close>: the value is \<open>undefined\<close> or \<open>null\<close>.\<close>

fun nullish :: "jsval \<Rightarrow> bool" where
  "nullish JUndefined = True"
| "nullish JNull = True"
| "nullish v = False"

text \<open>\<open>a || b\<close> and \<open>a ?? b\<close> on values already computed.\<close>

definition js_or :: "jsval \<Rightarrow> jsval \<Rightarrow> jsval" where
  "js_or a b = (if truthy a then a else b)"

definition js_coalesce :: "jsval \<Rightarrow> jsval \<Rightarrow> jsval" where
  "js_coalesce a b = (if nullish a then b else a)"

text \<open>
  \<open>a === b\<close>. Primitives compare by value. Arrays and objects compare by reference;
  every comparison in the modelled code is between values that come from different
  events or between a value and a string literal, so two arrays or objects are never the
  same reference.
\<close>

fun strict_eq :: "jsval \<Rightarrow> jsval \<Rightarrow> bool" where
  "strict_eq JUndefined JUndefined = True"
| "strict_eq JNull JNull = True"
| "strict_eq (JBool a) (JBool b) = (a = b)"
| "strict_eq (JNum a) (JNum b) = (a = b)"
| "strict_eq (JStr a) (JStr b) = (a = b)"
| "strict_eq a b = False"

text \<open>Decimal digits of a natural number, for \<open>String(n)\<close> and array indices.\<close>

definition digit_char :: "nat \<Rightarrow> char" where
  "digit_char d = ''0123456789'' ! d"

function string_of_nat :: "nat \<Rightarrow> string" where
  "string_of_nat n =
     (if n < 10 then [digit_char n] else string_of_nat (n div 10) @ [digit_char (n mod 10)])"
  by pat_completeness auto
termination
  by (relation "measure id") auto

definition string_of_int :: "int \<Rightarrow> string" where
  "string_of_int i = (if i < 0 then CHR ''-'' # string_of_nat (nat (- i)) else string_of_nat (nat i))"

fun join :: "string \<Rightarrow> string list \<Rightarrow> string" where
  "join sep [] = []"
| "join sep [s] = s"
| "join sep (s # t # ss) = s @ sep @ join sep (t # ss)"

text \<open>
  \<open>String(v)\<close>, which is also what \<open>'' + v\<close> appends and what a property key is
  converted with. An array joins its elements with commas, \<open>null\<close> and \<open>undefined\<close>
  elements giving the empty string. A number is rendered by its decimal digits, which is
  JavaScript's rendering of an integer of magnitude below \<open>10^21\<close>; from there on
  JavaScript writes an exponent, and such numbers are outside the model.
\<close>

fun js_to_string :: "jsval \<Rightarrow> string" where
  "js_to_string JUndefined = ''undefined''"
| "js_to_string JNull = ''null''"
| "js_to_string (JBool b) = (if b then ''true'' else ''false'')"
| "js_to_string (JNum n) = string_of_int n"
| "js_to_string (JStr s) = s"
| "js_to_string (JArr xs) =
     join '','' (map (\<lambda>x. if x = JUndefined \<or> x = JNull then [] else js_to_string x) xs)"
| "js_to_string (JObj kvs) = ''[object Object]''"

text \<open>The element of a list at the index a property key spells, if it spells one in range.\<close>

definition index_of_key :: "string \<Rightarrow> nat \<Rightarrow> nat option" where
  "index_of_key k n = find (\<lambda>i. string_of_nat i = k) [0..<n]"

text \<open>
  \<open>v[k]\<close> and \<open>v.k\<close>: reading a property of \<open>undefined\<close> or \<open>null\<close> throws; a
  missing property is \<open>undefined\<close>. The length and the indices of a string count its
  chars, which is what JavaScript counts on ASCII text.
\<close>

fun get_prop :: "jsval \<Rightarrow> string \<Rightarrow> jsval option" where
  "get_prop JUndefined k = None"
| "get_prop JNull k = None"
| "get_prop (JBool b) k = Some JUndefined"
| "get_prop (JNum n) k = Some JUndefined"
| "get_prop (JStr s) k =
     Some (case index_of_key k (length s) of
             Some i \<Rightarrow> JStr [s ! i]
           | None \<Rightarrow> if k = ''length'' then JNum (int (length s)) else JUndefined)"
| "get_prop (JArr xs) k =
     Some (case index_of_key k (length xs) of
             Some i \<Rightarrow> xs ! i
           | None \<Rightarrow> if k = ''length'' then JNum (int (length xs)) else JUndefined)"
| "get_prop (JObj kvs) k = Some (case map_of kvs k of Some v \<Rightarrow> v | None \<Rightarrow> JUndefined)"

text \<open>\<open>v?.k\<close>: \<open>undefined\<close> instead of a throw when \<open>v\<close> is nullish.\<close>

definition get_opt :: "jsval \<Rightarrow> string \<Rightarrow> jsval" where
  "get_opt v k = (case get_prop v k of None \<Rightarrow> JUndefined | Some x \<Rightarrow> x)"

section \<open>The data-chat page: consuming the event stream\<close>

text \<open>
  The assistant message that \<open>handleSend\<close> creates and \<open>processSSEEvent\<close> fills.
  Its summary starts as \<open>null\<close> and is only ever assigned the result of a string
  concatenation, so it is \<open>null\<close> or a string.
\<close>

record step =
  label :: jsval
  status :: string

record ai_msg =
  role :: string
  msgKey :: int
  steps :: "step list"
  sql :: jsval
  chartConfig :: jsval
  renderData :: jsval
  tableData :: jsval
  summary :: "string option"
  recommended :: jsval
  error :: jsval

definition new_ai_msg :: ai_msg where
  "new_ai_msg = \<lparr> role = ''ai'', msgKey = 0, steps = [], sql = JNull, chartConfig = JNull,
     renderData = JNull, tableData = JNull, summary = None, recommended = JNull,
     error = JNull \<rparr>"

text \<open>\<open>msg.steps.find((s) => s.label === name)\<close> followed by \<open>step.status = 'done'\<close>:
  the first step with that label, if there is one, becomes done.\<close>

fun mark_done :: "jsval \<Rightarrow> step list \<Rightarrow> step list" where
  "mark_done name [] = []"
| "mark_done name (s # ss) =
     (if strict_eq (label s) name then s\<lparr>status := ''done''\<rparr> # ss
      else s # mark_done name ss)"

definition process_step_progress :: "ai_msg \<Rightarrow> jsval \<Rightarrow> ai_msg option" where
  "process_step_progress msg data = do {
     st \<leftarrow> get_prop data ''status'';
     stepName \<leftarrow> get_prop data ''stepName'';
     stp \<leftarrow> get_prop data ''step'';
     Some (if strict_eq st (JStr ''start'')
           then msg\<lparr>steps := steps msg @ [\<lparr>label = js_or stepName stp, status = ''running''\<rparr>]\<rparr>
           else if strict_eq st (JStr ''complete'')
           then msg\<lparr>steps := mark_done (js_or stepName stp) (steps msg)\<rparr>
           else msg)
   }"

definition process_answer :: "ai_msg \<Rightarrow> jsval \<Rightarrow> ai_msg option" where
  "process_answer msg data = do {
     mt \<leftarrow> get_prop data ''messageType'';
     content \<leftarrow> get_prop data ''content'';
     Some (if strict_eq mt (JStr ''error'')
           then msg\<lparr>error := content\<rparr>
           else msg\<lparr>summary :=
                  Some ((case summary msg of None \<Rightarrow> [] | Some s \<Rightarrow> s)
                        @ js_to_string (js_or content (JStr [])))\<rparr>)
   }"

definition process_bus_data :: "ai_msg \<Rightarrow> jsval \<Rightarrow> ai_msg option" where
  "process_bus_data msg data = do {
     cc \<leftarrow> get_prop data ''chart_config'';
     rd \<leftarrow> get_prop data ''render_data'';
     q \<leftarrow> get_prop data ''sql'';
     rq \<leftarrow> get_prop data ''recommended_questions'';
     let m1 = (if \<not> nullish cc then msg\<lparr>chartConfig := cc\<rparr> else msg);
     let m2 = (if \<not> nullish rd
               then m1\<lparr>renderData := rd, tableData := js_coalesce (get_opt rd ''data'') JNull\<rparr>
               else m1);
     let m3 = (if truthy q then m2\<lparr>sql := q\<rparr> else m2);
     Some (if truthy rq then m3\<lparr>recommended := rq\<rparr> else m3)
   }"

text \<open>
  \<open>processSSEEvent(msg, evt)\<close>. The message is mutated in place; every throw happens
  on the first read of \<open>evt\<close> or \<open>data\<close>, before any assignment, so a throwing call
  leaves the message as it was.
\<close>

definition processSSEEvent :: "ai_msg \<Rightarrow> jsval \<Rightarrow> ai_msg option" where
  "processSSEEvent msg evt = do {
     dataType \<leftarrow> get_prop evt ''dataType'';
     data \<leftarrow> get_prop evt ''data'';
     if strict_eq dataType (JStr ''step_progress'') then process_step_progress msg data
     else if strict_eq dataType (JStr ''answer'') then process_answer msg data
     else if strict_eq dataType (JStr ''bus_data'') then process_bus_data msg data
     else if strict_eq dataType (JStr ''stream_end'') then Some msg
     else Some msg
   }"

text \<open>
  The body of the read loop of \<open>handleSend\<close> for one decoded event, on the session's
  \<open>chatId\<close> and the assistant message of the run. The surrounding \<open>try\<close> drops
  whatever the body throws. The reload of the session list that follows the assignment of
  \<open>chatId\<close> touches neither.
\<close>

record run_state =
  chatId :: jsval
  aiMsg :: ai_msg

definition on_event_body :: "run_state \<Rightarrow> jsval \<Rightarrow> run_state option" where
  "on_event_body r evt = do {
     dataType \<leftarrow> get_prop evt ''dataType'';
     data \<leftarrow> get_prop evt ''data'';
     if strict_eq dataType (JStr ''stream_end'') \<and> truthy (get_opt data ''chat_id'')
     then Some (r\<lparr>chatId := get_opt data ''chat_id''\<rparr>)
     else do { m \<leftarrow> processSSEEvent (aiMsg r) evt; Some (r\<lparr>aiMsg := m\<rparr>) }
   }"

definition on_event :: "jsval \<Rightarrow> run_state \<Rightarrow> run_state" where
  "on_event evt r = (case on_event_body r evt of None \<Rightarrow> r | Some r' \<Rightarrow> r')"

definition consume :: "jsval list \<Rightarrow> run_state \<Rightarrow> run_state" where
  "consume evts r = fold on_event evts r"

text \<open>What the run does to its state on a \<open>bus_data\<close> event, one payload field at a time.\<close>

definition bus_update :: "jsval \<Rightarrow> ai_msg \<Rightarrow> ai_msg" where
  "bus_update data msg = (case process_bus_data msg data of None \<Rightarrow> msg | Some m \<Rightarrow> m)"

definition set_chart :: "jsval \<Rightarrow> ai_msg \<Rightarrow> ai_msg" where
  "set_chart v m = (if nullish v then m else m\<lparr>chartConfig := v\<rparr>)"

definition set_render :: "jsval \<Rightarrow> ai_msg \<Rightarrow> ai_msg" where
  "set_render v m = (if nullish v then m
     else m\<lparr>renderData := v, tableData := js_coalesce (get_opt v ''data'') JNull\<rparr>)"

definition set_sql :: "jsval \<Rightarrow> ai_msg \<Rightarrow> ai_msg" where
  "set_sql v m = (if truthy v then m\<lparr>sql := v\<rparr> else m)"

definition set_recommended :: "jsval \<Rightarrow> ai_msg \<Rightarrow> ai_msg" where
  "set_recommended v m = (if truthy v then m\<lparr>recommended := v\<rparr> else m)"

text \<open>The payload fields of a \<open>bus_data\<close> event: the keys its data carries.\<close>

definition payload_keys :: "string list" where
  "payload_keys = [''sql'', ''chart_config'', ''render_data'', ''recommended_questions'']"

definition payload_fields :: "jsval \<Rightarrow> string list" where
  "payload_fields evt =
     filter (\<lambda>k. get_opt (get_opt evt ''data'') k \<noteq> JUndefined) payload_keys"

text \<open>
  The order on step lists. A step list moves forward when every step it had keeps its
  position and label, and keeps its status or becomes done; new steps come at the end.
\<close>

definition step_le :: "step \<Rightarrow> step \<Rightarrow> bool" where
  "step_le a b = (label b = label a \<and> (status b = status a \<or> status b = ''done''))"

definition steps_forward :: "step list \<Rightarrow> step list \<Rightarrow> bool" where
  "steps_forward old new =
     (length old \<le> length new \<and> list_all2 step_le old (take (length old) new))"

definition steps_known :: "step list \<Rightarrow> bool" where
  "steps_known ss = list_all (\<lambda>s. status s = ''running'' \<or> status s = ''done'') ss"

section \<open>The chart component\<close>

text \<open>The own enumerable properties of a value, as \<open>Object.keys\<close> and object spread see them.\<close>

fun own_entries :: "jsval \<Rightarrow> (string \<times> jsval) list" where
  "own_entries (JObj kvs) = kvs"
| "own_entries (JArr xs) = zip (map string_of_nat [0..<length xs]) xs"
| "own_entries (JStr s) = zip (map string_of_nat [0..<length s]) (map (\<lambda>c. JStr [c]) s)"
| "own_entries v = []"

text \<open>
  The array index a key spells, if it spells one: decimal digits without a leading zero,
  below \<open>2^32 - 1\<close>. JavaScript enumerates such keys first, in ascending order, and the
  other keys after them in the order they were created.
\<close>

definition digits_value :: "string \<Rightarrow> int" where
  "digits_value k = foldl (\<lambda>n c. 10 * n + (of_char c - 48)) 0 k"

definition key_index :: "string \<Rightarrow> int option" where
  "key_index k =
     (if k \<noteq> [] \<and> list_all (\<lambda>c. c \<in> set ''0123456789'') k
         \<and> (k = ''0'' \<or> hd k \<noteq> CHR ''0'') \<and> digits_value k < 4294967295
      then Some (digits_value k) else None)"

text \<open>Writing a property of an object literal under construction: an existing key keeps
  its position and takes the new value; a new key goes to its place in the enumeration
  order.\<close>

fun obj_insert :: "string \<Rightarrow> jsval \<Rightarrow> (string \<times> jsval) list \<Rightarrow> (string \<times> jsval) list" where
  "obj_insert k v [] = [(k, v)]"
| "obj_insert k v ((k', v') # kvs) =
     (case key_index k of
        None \<Rightarrow> (k', v') # obj_insert k v kvs
      | Some n \<Rightarrow>
          (case key_index k' of
             None \<Rightarrow> (k, v) # (k', v') # kvs
           | Some m \<Rightarrow> if m < n then (k', v') # obj_insert k v kvs
                       else (k, v) # (k', v') # kvs))"

definition obj_set :: "string \<Rightarrow> jsval \<Rightarrow> (string \<times> jsval) list \<Rightarrow> (string \<times> jsval) list" where
  "obj_set k v kvs =
     (if k \<in> fst ` set kvs
      then map (\<lambda>(k', v'). if k' = k then (k', v) else (k', v')) kvs
      else obj_insert k v kvs)"

definition spread :: "jsval \<Rightarrow> (string \<times> jsval) list \<Rightarrow> (string \<times> jsval) list" where
  "spread v kvs = fold (\<lambda>(k, x). obj_set k x) (own_entries v) kvs"

text \<open>
  \<open>String.prototype.trim\<close> on UTF-8 text: the white space and line terminator
  characters of ECMAScript, each as its byte sequence, are removed from both ends.
\<close>

definition js_whitespace :: "string list" where
  "js_whitespace =
     [[CHR 0x09], [CHR 0x0A], [CHR 0x0B], [CHR 0x0C], [CHR 0x0D], [CHR 0x20],
      [CHR 0xC2, CHR 0xA0], [CHR 0xE1, CHR 0x9A, CHR 0x80],
      [CHR 0xE2, CHR 0x80, CHR 0x80], [CHR 0xE2, CHR 0x80, CHR 0x81],
      [CHR 0xE2, CHR 0x80, CHR 0x82], [CHR 0xE2, CHR 0x80, CHR 0x83],
      [CHR 0xE2, CHR 0x80, CHR 0x84], [CHR 0xE2, CHR 0x80, CHR 0x85],
      [CHR 0xE2, CHR 0x80, CHR 0x86], [CHR 0xE2, CHR 0x80, CHR 0x87],
      [CHR 0xE2, CHR 0x80, CHR 0x88], [CHR 0xE2, CHR 0x80, CHR 0x89],
      [CHR 0xE2, CHR 0x80, CHR 0x8A], [CHR 0xE2, CHR 0x80, CHR 0xA8],
      [CHR 0xE2, CHR 0x80, CHR 0xA9], [CHR 0xE2, CHR 0x80, CHR 0xAF],
      [CHR 0xE2, CHR 0x81, CHR 0x9F], [CHR 0xE3, CHR 0x80, CHR 0x80],
      [CHR 0xEF, CHR 0xBB, CHR 0xBF]]"

function strip_leading :: "string list \<Rightarrow> string \<Rightarrow> string" where
  "strip_leading ws s =
     (case find (\<lambda>w. w \<noteq> [] \<and> take (length w) s = w) ws of
        None \<Rightarrow> s
      | Some w \<Rightarrow> strip_leading ws (drop (length w) s))"
  by pat_completeness auto
termination
proof (relation "measure (\<lambda>(ws, s). length s)")
  show "wf (measure (\<lambda>(ws, s). length s))"
    by simp
next
  fix ws :: "string list" and s w :: string
  assume "find (\<lambda>w. w \<noteq> [] \<and> take (length w) s = w) ws = Some w"
  then have "w \<noteq> []" and "take (length w) s = w"
    by (auto simp: find_Some_iff)
  then have "s \<noteq> []"
    by auto
  with \<open>w \<noteq> []\<close> show "((ws, drop (length w) s), (ws, s)) \<in> measure (\<lambda>(ws, s). length s)"
    by simp
qed

declare strip_leading.simps [simp del]

definition js_trim :: "string \<Rightarrow> string" where
  "js_trim s = rev (strip_leading (map rev js_whitespace) (rev (strip_leading js_whitespace s)))"

text \<open>
  \<open>getChartColors\<close> reads the ten CSS variables \<open>--chart-palette-1\<close> to
  \<open>--chart-palette-10\<close> of the document; \<open>css i\<close> is the value of the \<open>i\<close>-th,
  the empty string when it is not set.
\<close>

definition default_colors :: "string list" where
  "default_colors = [''#3996ae'', ''#5faec2'', ''#82c3d6'', ''#a3d8e8'', ''#046a82'',
     ''#024c63'', ''#f0b429'', ''#e8694e'', ''#6c63ff'', ''#2ecc71'']"

definition getChartColors :: "(nat \<Rightarrow> string) \<Rightarrow> jsval" where
  "getChartColors css =
     (let colors = filter (\<lambda>c. c \<noteq> []) (map (\<lambda>i. js_trim (css i)) [1..<11])
      in JArr (map JStr (if colors \<noteq> [] then colors else default_colors)))"

text \<open>One entry of \<open>renderData.columns\<close> as a column name.\<close>

fun column_name :: "jsval \<Rightarrow> jsval" where
  "column_name (JStr s) = JStr s"
| "column_name (JObj kvs) =
     js_coalesce (js_coalesce (js_coalesce (get_opt (JObj kvs) ''value'')
       (get_opt (JObj kvs) ''name'')) (get_opt (JObj kvs) ''key'')) (JStr [])"
| "column_name (JArr xs) =
     js_coalesce (js_coalesce (js_coalesce (get_opt (JArr xs) ''value'')
       (get_opt (JArr xs) ''name'')) (get_opt (JArr xs) ''key'')) (JStr [])"
| "column_name v = JStr (js_to_string v)"

text \<open>
  \<open>normalizeColumns(renderData)\<close>. When \<open>columns\<close> has a truthy \<open>length\<close> its
  \<open>map\<close> method is called, which only an array has; on anything else the call throws.
\<close>

definition normalizeColumns :: "jsval \<Rightarrow> jsval list option" where
  "normalizeColumns rdata = do {
     fromCols \<leftarrow>
       (if truthy (get_opt (get_opt rdata ''columns'') ''length'')
        then (case get_opt rdata ''columns'' of
                JArr cols \<Rightarrow> Some (filter truthy (map column_name cols))
              | _ \<Rightarrow> None)
        else Some []);
     if fromCols \<noteq> [] then Some fromCols
     else let first = get_opt (get_opt rdata ''data'') ''0''
          in Some (if truthy first then map (\<lambda>(k, v). JStr k) (own_entries first) else [])
   }"

text \<open>\<open>data.map((d) => d[field])\<close>: only an array has \<open>map\<close>, and reading a
  property of a \<open>null\<close> row throws.\<close>

definition pluck :: "jsval \<Rightarrow> jsval \<Rightarrow> jsval option" where
  "pluck data field =
     (case data of
        JArr rows \<Rightarrow> map_option JArr (those (map (\<lambda>d. get_prop d (js_to_string field)) rows))
      | _ \<Rightarrow> None)"

definition nth_or_undefined :: "jsval list \<Rightarrow> nat \<Rightarrow> jsval" where
  "nth_or_undefined xs i = (if i < length xs then xs ! i else JUndefined)"

definition pct_grid :: jsval where
  "pct_grid = JObj [(''left'', JStr ''3%''), (''right'', JStr ''4%''), (''bottom'', JStr ''3%''),
     (''containLabel'', JBool True)]"

definition buildBarOption :: "jsval \<Rightarrow> jsval \<Rightarrow> jsval list \<Rightarrow> jsval \<Rightarrow> jsval option" where
  "buildBarOption config data columns colors = do {
     x_field \<leftarrow> get_prop config ''x_field'';
     y_fields \<leftarrow> get_prop config ''y_fields'';
     let xField = js_or x_field (nth_or_undefined columns 0);
     let yFields = js_or y_fields (JArr (drop 1 columns));
     xs \<leftarrow> pluck data xField;
     series \<leftarrow>
       (case yFields of
          JArr flds \<Rightarrow>
            those (map (\<lambda>field. do {
                ys \<leftarrow> pluck data field;
                Some (JObj [(''name'', field), (''type'', JStr ''bar''), (''data'', ys)])
              }) flds)
        | _ \<Rightarrow> None);
     Some (JObj
       [(''color'', colors),
        (''tooltip'', JObj [(''trigger'', JStr ''axis'')]),
        (''grid'', pct_grid),
        (''xAxis'', JObj [(''type'', JStr ''category''), (''data'', xs),
           (''axisLabel'', JObj [(''rotate'',
              JNum (case data of JArr rows \<Rightarrow> if 8 < length rows then 30 else 0 | _ \<Rightarrow> 0))])]),
        (''yAxis'', JObj [(''type'', JStr ''value'')]),
        (''series'', JArr series)])
   }"

definition buildLineOption :: "jsval \<Rightarrow> jsval \<Rightarrow> jsval list \<Rightarrow> jsval \<Rightarrow> jsval option" where
  "buildLineOption config data columns colors = do {
     x_field \<leftarrow> get_prop config ''x_field'';
     y_fields \<leftarrow> get_prop config ''y_fields'';
     let xField = js_or x_field (nth_or_undefined columns 0);
     let yFields = js_or y_fields (JArr (drop 1 columns));
     xs \<leftarrow> pluck data xField;
     series \<leftarrow>
       (case yFields of
          JArr flds \<Rightarrow>
            those (map (\<lambda>field. do {
                ys \<leftarrow> pluck data field;
                Some (JObj [(''name'', field), (''type'', JStr ''line''),
                  (''smooth'', JBool True), (''data'', ys)])
              }) flds)
        | _ \<Rightarrow> None);
     Some (JObj
       [(''color'', colors),
        (''tooltip'', JObj [(''trigger'', JStr ''axis'')]),
        (''grid'', pct_grid),
        (''xAxis'', JObj [(''type'', JStr ''category''), (''data'', xs)]),
        (''yAxis'', JObj [(''type'', JStr ''value'')]),
        (''series'', JArr series)])
   }"

definition buildPieOption :: "jsval \<Rightarrow> jsval \<Rightarrow> jsval list \<Rightarrow> jsval \<Rightarrow> jsval option" where
  "buildPieOption config data columns colors = do {
     name_field \<leftarrow> get_prop config ''name_field'';
     value_field \<leftarrow> get_prop config ''value_field'';
     let axis = get_opt config ''axis'';
     let nameField = js_or (js_or (js_or name_field (get_opt (get_opt axis ''series'') ''value''))
                        (get_opt (get_opt axis ''x'') ''value'')) (nth_or_undefined columns 0);
     let valueField = js_or (js_or value_field (get_opt (get_opt axis ''y'') ''value''))
                        (nth_or_undefined columns 1);
     slices \<leftarrow>
       (case data of
          JArr rows \<Rightarrow>
            those (map (\<lambda>d. do {
                n \<leftarrow> get_prop d (js_to_string nameField);
                v \<leftarrow> get_prop d (js_to_string valueField);
                Some (JObj [(''name'', n), (''value'', v)])
              }) rows)
        | _ \<Rightarrow> None);
     Some (JObj
       [(''color'', colors),
        (''tooltip'', JObj [(''trigger'', JStr ''item''), (''formatter'', JStr ''{b}: {c} ({d}%)'')]),
        (''series'', JArr [JObj
           [(''type'', JStr ''pie''),
            (''radius'', JArr [JStr ''40%'', JStr ''70%'']),
            (''avoidLabelOverlap'', JBool True),
            (''label'', JObj [(''show'', JBool True), (''formatter'', JStr ''{b}: {d}%'')]),
            (''data'', JArr slices)]])])
   }"

text \<open>The two captions, \<open>no data\<close> and \<open>switch to the table view to see the data\<close>,
  as the UTF-8 bytes of the source's Chinese text.\<close>

definition no_data_text :: string where
  "no_data_text = [CHR 0xE6, CHR 0x9A, CHR 0x82, CHR 0xE6, CHR 0x97, CHR 0xA0, CHR 0xE6,
     CHR 0x95, CHR 0xB0, CHR 0xE6, CHR 0x8D, CHR 0xAE]"

definition switch_to_table_text :: string where
  "switch_to_table_text = [CHR 0xE8, CHR 0xAF, CHR 0xB7, CHR 0xE5, CHR 0x88, CHR 0x87,
     CHR 0xE6, CHR 0x8D, CHR 0xA2, CHR 0xE5, CHR 0x88, CHR 0xB0, CHR 0xE8, CHR 0xA1, CHR 0xA8,
     CHR 0xE6, CHR 0xA0, CHR 0xBC, CHR 0xE8, CHR 0xA7, CHR 0x86, CHR 0xE5, CHR 0x9B, CHR 0xBE,
     CHR 0xE6, CHR 0x9F, CHR 0xA5, CHR 0xE7, CHR 0x9C, CHR 0x8B, CHR 0xE6, CHR 0x95, CHR 0xB0,
     CHR 0xE6, CHR 0x8D, CHR 0xAE]"

definition caption_option :: "string \<Rightarrow> jsval" where
  "caption_option t = JObj [(''title'',
     JObj [(''text'', JStr t), (''left'', JStr ''center''), (''top'', JStr ''center'')])]"

text \<open>\<open>config.chart_type || config.type || 'bar'\<close>.\<close>

definition chart_kind :: "jsval \<Rightarrow> jsval" where
  "chart_kind config =
     js_or (js_or (get_opt config ''chart_type'') (get_opt config ''type'')) (JStr ''bar'')"

text \<open>\<open>buildOption(config, renderData)\<close>, with the CSS palette as a further argument.\<close>

definition buildOption :: "(nat \<Rightarrow> string) \<Rightarrow> jsval \<Rightarrow> jsval \<Rightarrow> jsval option" where
  "buildOption css config rdata = do {
     series \<leftarrow> get_prop config ''series'';
     xAxis \<leftarrow> get_prop config ''xAxis'';
     yAxis \<leftarrow> get_prop config ''yAxis'';
     if truthy series \<or> truthy xAxis \<or> truthy yAxis
     then Some (JObj (obj_set ''color'' (getChartColors css)
            (spread config
               [(''tooltip'', JObj [(''trigger'', JStr ''axis'')]), (''grid'', pct_grid)])))
     else do {
       let chartType = chart_kind config;
       let data = js_or (get_opt rdata ''data'') (JArr []);
       columns \<leftarrow> normalizeColumns (js_or rdata (JObj []));
       if strict_eq (get_opt data ''length'') (JNum 0)
       then Some (caption_option no_data_text)
       else let colors = getChartColors css in
         if strict_eq chartType (JStr ''pie'') then buildPieOption config data columns colors
         else if strict_eq chartType (JStr ''line'') then buildLineOption config data columns colors
         else if strict_eq chartType (JStr ''table'') then Some (caption_option switch_to_table_text)
         else buildBarOption config data columns colors
     }
   }"

text \<open>
  The component: whether the chart element is mounted, the two props, the view mode, and
  the ECharts instance, which is absent, or present with the option it was last given.
\<close>

record chart_component =
  chartRef :: bool
  props_config :: jsval
  props_data :: jsval
  viewMode :: string
  chartInstance :: "jsval option option"

definition initViewMode :: "chart_component \<Rightarrow> chart_component" where
  "initViewMode c =
     (if strict_eq (js_or (get_opt (props_config c) ''type'') (get_opt (props_config c) ''chart_type''))
           (JStr ''table'')
      then c\<lparr>viewMode := ''table''\<rparr> else c)"

text \<open>\<open>renderChart()\<close> returns normally with the component's new state, or throws
  out of \<open>buildOption\<close>, leaving the fresh instance without an option. ECharts itself
  is taken not to throw.\<close>

datatype 'a completion = Normal 'a | Throws 'a

definition renderChart :: "(nat \<Rightarrow> string) \<Rightarrow> chart_component \<Rightarrow> chart_component completion" where
  "renderChart css c =
     (if \<not> chartRef c \<or> \<not> truthy (props_config c) then Normal c
      else case buildOption css (props_config c) (props_data c) of
             None \<Rightarrow> Throws (c\<lparr>chartInstance := Some None\<rparr>)
           | Some option \<Rightarrow> Normal (c\<lparr>chartInstance := Some (Some option)\<rparr>))"

text \<open>Reading an option back: its series and the category axis data.\<close>

definition series_of :: "jsval \<Rightarrow> jsval list" where
  "series_of option = (case get_opt option ''series'' of JArr ss \<Rightarrow> ss | _ \<Rightarrow> [])"

definition category_data :: "jsval \<Rightarrow> jsval" where
  "category_data option = get_opt (get_opt option ''xAxis'') ''data''"

section \<open>The data-chat page: sending a question\<close>

text \<open>
  The state of the page: its refs, the assistant message objects created so far (a store,
  addressed by position, since the message list and the running \<open>handleSend\<close> share
  each object), and the activations of \<open>handleSend\<close> that have passed the guard and
  not yet left through \<open>finally\<close>, each named by the address of its \<open>aiMsg\<close>.
  The ref \<open>chatId\<close> is the field \<open>chatId_ref\<close>; the input text is a string, as the
  text area binds it.
\<close>

datatype chat_message = UserMsg string | AiRef nat

record page =
  inputText :: string
  currentDsId :: jsval
  selectedModel :: jsval
  chatId_ref :: jsval
  streaming :: bool
  messages :: "chat_message list"
  dsOptions :: "jsval list"
  recommendations :: "jsval list"
  heap :: "ai_msg list"
  inflight :: "nat list"

definition initial_page :: page where
  "initial_page = \<lparr> inputText = [], currentDsId = JNull, selectedModel = JStr [],
     chatId_ref = JNull, streaming = False, messages = [], dsOptions = [],
     recommendations = [], heap = [], inflight = [] \<rparr>"

text \<open>
  \<open>handleSend()\<close> up to its first \<open>await\<close>: the guard, the two pushes, the flag, and
  the argument of \<open>dataChatApi.chat\<close> when the request is made.
\<close>

definition handleSend :: "page \<Rightarrow> page \<times> jsval option" where
  "handleSend p =
     (let query = js_trim (inputText p) in
      if query = [] \<or> \<not> truthy (currentDsId p) \<or> streaming p then (p, None)
      else (p\<lparr> messages := messages p @ [UserMsg query, AiRef (length (heap p))],
               inputText := [],
               heap := heap p @ [new_ai_msg],
               streaming := True,
               inflight := inflight p @ [length (heap p)] \<rparr>,
            Some (JObj [(''query'', JStr query),
                        (''datasource_id'', currentDsId p),
                        (''chat_id'', chatId_ref p),
                        (''model'', js_or (selectedModel p) JUndefined)])))"

text \<open>
  \<open>dataChatApi.chat(data)\<close>: the POST it issues. \<open>JSON.stringify\<close> serialises the
  members of \<open>data\<close> whose value is not \<open>undefined\<close>; the body is kept as that list
  of members, not as text. \<open>auth\<close> stands for \<open>userStore.getAuthHeaders()\<close>.
\<close>

record http_request =
  url :: string
  http_method :: string
  headers :: "(string \<times> string) list"
  body :: "(string \<times> jsval) list"

definition chat :: "(string \<times> string) list \<Rightarrow> jsval \<Rightarrow> http_request" where
  "chat auth data = \<lparr> url = ''/api/data-chat/chat'', http_method = ''POST'',
     headers = (''Content-Type'', ''application/json'') # auth,
     body = filter (\<lambda>(k, v). v \<noteq> JUndefined) (own_entries data) \<rparr>"

text \<open>The two error captions and the fallback error text, as UTF-8 bytes.\<close>

definition request_failed_text :: string where
  "request_failed_text = [CHR 0xE8, CHR 0xAF, CHR 0xB7, CHR 0xE6, CHR 0xB1, CHR 0x82,
     CHR 0xE5, CHR 0xA4, CHR 0xB1, CHR 0xE8, CHR 0xB4, CHR 0xA5, CHR 0x3A, CHR 0x20]"

definition request_error_text :: string where
  "request_error_text = [CHR 0xE8, CHR 0xAF, CHR 0xB7, CHR 0xE6, CHR 0xB1, CHR 0x82,
     CHR 0xE5, CHR 0xBC, CHR 0x82, CHR 0xE5, CHR 0xB8, CHR 0xB8, CHR 0x3A, CHR 0x20]"

definition unknown_error_text :: string where
  "unknown_error_text = [CHR 0xE6, CHR 0x9C, CHR 0xAA, CHR 0xE7, CHR 0x9F, CHR 0xA5,
     CHR 0xE9, CHR 0x94, CHR 0x99, CHR 0xE8, CHR 0xAF, CHR 0xAF]"

text \<open>
  What can happen on the page, one action per stretch of code that runs without an
  \<open>await\<close> in between. The first five belong to \<open>handleSend\<close>: its start, and for the
  activation whose \<open>aiMsg\<close> is at the given address, a response that is not ok, one
  decoded event, the end of the stream, and an exception caught by the outer \<open>catch\<close>
  (reading \<open>e.message\<close> of a \<open>null\<close> or \<open>undefined\<close> exception throws inside
  the \<open>catch\<close>, so the error is then not written; \<open>finally\<close> runs all the same).
  The others are the handlers that write the refs \<open>handleSend\<close> reads; of
  \<open>loadSession\<close> only the part before its \<open>await\<close> is modelled (on a nullish
  session it throws at once). None of the page's other code assigns \<open>streaming\<close>.
\<close>

datatype action =
    HandleSend
  | ResponseNotOk nat int
  | StreamEvent nat jsval
  | StreamDone nat
  | StreamError nat jsval
  | SetInput string
  | SelectDatasource jsval
  | HandleNewChat
  | OnModelSelect jsval
  | LoadSession jsval

fun ends_run :: "action \<Rightarrow> bool" where
  "ends_run (ResponseNotOk a st) = True"
| "ends_run (StreamDone a) = True"
| "ends_run (StreamError a e) = True"
| "ends_run act = False"

definition set_error :: "nat \<Rightarrow> jsval \<Rightarrow> ai_msg list \<Rightarrow> ai_msg list" where
  "set_error a v h = h[a := (h ! a)\<lparr>error := v\<rparr>]"

definition handleNewChat :: "page \<Rightarrow> page" where
  "handleNewChat p = p\<lparr>messages := [], chatId_ref := JNull, recommendations := []\<rparr>"

text \<open>A step of the page; \<open>None\<close> when the action names an activation that is not in flight.\<close>

fun page_step :: "action \<Rightarrow> page \<Rightarrow> page option" where
  "page_step HandleSend p = Some (fst (handleSend p))"
| "page_step (ResponseNotOk a st) p =
     (if a \<in> set (inflight p) \<and> a < length (heap p)
      then Some (p\<lparr> heap := set_error a (JStr (request_failed_text @ string_of_int st)) (heap p),
                    streaming := False, inflight := remove1 a (inflight p) \<rparr>)
      else None)"
| "page_step (StreamEvent a evt) p =
     (if a \<in> set (inflight p) \<and> a < length (heap p)
      then let r = on_event evt \<lparr>chatId = chatId_ref p, aiMsg = heap p ! a\<rparr>
           in Some (p\<lparr> chatId_ref := chatId r, heap := (heap p)[a := aiMsg r] \<rparr>)
      else None)"
| "page_step (StreamDone a) p =
     (if a \<in> set (inflight p) \<and> a < length (heap p)
      then Some (p\<lparr> streaming := False, inflight := remove1 a (inflight p) \<rparr>)
      else None)"
| "page_step (StreamError a e) p =
     (if a \<in> set (inflight p) \<and> a < length (heap p)
      then Some (p\<lparr> heap := (if nullish e then heap p
                      else set_error a
                        (JStr (request_error_text
                           @ js_to_string (js_or (get_opt e ''message'') (JStr unknown_error_text))))
                        (heap p)),
                    streaming := False, inflight := remove1 a (inflight p) \<rparr>)
      else None)"
| "page_step (SetInput s) p = Some (p\<lparr>inputText := s\<rparr>)"
| "page_step (SelectDatasource v) p = Some (handleNewChat (p\<lparr>currentDsId := v\<rparr>))"
| "page_step HandleNewChat p = Some (handleNewChat p)"
| "page_step (OnModelSelect spec) p = Some (p\<lparr>selectedModel := js_or spec (JStr [])\<rparr>)"
| "page_step (LoadSession session) p =
     Some (if nullish session \<or> strict_eq (get_opt session ''chat_id'') (chatId_ref p) then p
           else (if truthy (get_opt session ''datasource_id'')
                 then p\<lparr>chatId_ref := get_opt session ''chat_id'',
                        currentDsId := get_opt session ''datasource_id'', messages := []\<rparr>
                 else p\<lparr>chatId_ref := get_opt session ''chat_id'', messages := []\<rparr>))"

fun run :: "action list \<Rightarrow> page \<Rightarrow> page option" where
  "run [] p = Some p"
| "run (act # acts) p = (case page_step act p of None \<Rightarrow> None | Some p' \<Rightarrow> run acts p')"

text \<open>
  \<open>loadDatasources()\<close>, given what \<open>datasourceApi.list()\<close> resolved to (\<open>None\<close> when
  it rejected). The \<open>catch\<close> logs and leaves the options as they were.
\<close>

definition datasource_options :: "jsval \<Rightarrow> jsval list option" where
  "datasource_options res = do {
     ds \<leftarrow> get_prop res ''datasources'';
     case js_or ds (JArr []) of
       JArr items \<Rightarrow> do {
         _ \<leftarrow> those (map (\<lambda>d. get_prop d ''status'') items);
         Some (map (\<lambda>d. JObj [(''label'', get_opt d ''name''), (''value'', get_opt d ''id'')])
                 (filter (\<lambda>d. strict_eq (get_opt d ''status'') (JStr ''success'')) items))
       }
     | _ \<Rightarrow> None
   }"

definition loadDatasources :: "jsval option \<Rightarrow> page \<Rightarrow> page" where
  "loadDatasources response p =
     (case Option.bind response datasource_options of
        None \<Rightarrow> p
      | Some opts \<Rightarrow> p\<lparr>dsOptions := opts\<rparr>)"

text \<open>The invariant of the page: one activation in flight while streaming, none otherwise.\<close>

definition one_run :: "page \<Rightarrow> bool" where
  "one_run p = (length (inflight p) = (if streaming p then 1 else 0))"

section \<open>Properties of the event consumer\<close>

subsection \<open>Reading events\<close>

lemma strict_eq_JStr [simp]: "strict_eq v (JStr s) = (v = JStr s)"
  by (cases v) auto

lemma get_prop_get_opt: "\<not> nullish v \<Longrightarrow> get_prop v k = Some (get_opt v k)"
  by (cases v) (auto simp: get_opt_def)

lemma get_prop_nullish: "nullish v \<Longrightarrow> get_prop v k = None"
  by (cases v) auto

lemma get_opt_nullish: "nullish v \<Longrightarrow> get_opt v k = JUndefined"
  by (cases v) (auto simp: get_opt_def)

lemma get_opt_JObj: "get_opt (JObj kvs) k = (case map_of kvs k of Some v \<Rightarrow> v | None \<Rightarrow> JUndefined)"
  by (simp add: get_opt_def)

lemma processSSEEvent_nullish: "nullish evt \<Longrightarrow> processSSEEvent msg evt = None"
  by (simp add: processSSEEvent_def get_prop_nullish)

lemma processSSEEvent_unfold:
  "\<not> nullish evt \<Longrightarrow> processSSEEvent msg evt =
     (if get_opt evt ''dataType'' = JStr ''step_progress''
      then process_step_progress msg (get_opt evt ''data'')
      else if get_opt evt ''dataType'' = JStr ''answer''
      then process_answer msg (get_opt evt ''data'')
      else if get_opt evt ''dataType'' = JStr ''bus_data''
      then process_bus_data msg (get_opt evt ''data'')
      else Some msg)"
  by (simp add: processSSEEvent_def get_prop_get_opt)

lemma on_event_nullish: "nullish evt \<Longrightarrow> on_event evt r = r"
  by (simp add: on_event_def on_event_body_def get_prop_nullish)

lemma on_event_unfold:
  "\<not> nullish evt \<Longrightarrow> on_event evt r =
     (if get_opt evt ''dataType'' = JStr ''stream_end''
         \<and> truthy (get_opt (get_opt evt ''data'') ''chat_id'')
      then r\<lparr>chatId := get_opt (get_opt evt ''data'') ''chat_id''\<rparr>
      else case processSSEEvent (aiMsg r) evt of None \<Rightarrow> r | Some m \<Rightarrow> r\<lparr>aiMsg := m\<rparr>)"
  by (simp add: on_event_def on_event_body_def get_prop_get_opt split: option.splits)

text \<open>
  C1. An event whose \<open>dataType\<close> is none of \<open>step_progress\<close>, \<open>answer\<close> and
  \<open>bus_data\<close> (so also a \<open>stream_end\<close> event and every unknown kind) leaves the
  message as it is: \<open>processSSEEvent\<close> returns it unchanged or throws before touching
  it, and the read loop keeps the message. A \<open>stream_end\<close> event whose data carries a
  truthy \<open>chat_id\<close> sets the session's \<open>chatId\<close> to it and changes nothing else.
\<close>

theorem processSSEEvent_dispatch:
  "(get_opt evt ''dataType'' \<notin> {JStr ''step_progress'', JStr ''answer'', JStr ''bus_data''}
      \<longrightarrow> (processSSEEvent msg evt = None \<or> processSSEEvent msg evt = Some msg)
          \<and> aiMsg (on_event evt r) = aiMsg r)
   \<and> (get_opt evt ''dataType'' = JStr ''stream_end''
        \<and> truthy (get_opt (get_opt evt ''data'') ''chat_id'')
      \<longrightarrow> on_event evt r = r\<lparr>chatId := get_opt (get_opt evt ''data'') ''chat_id''\<rparr>)"
proof (cases "nullish evt")
  case True
  then show ?thesis
    by (simp add: processSSEEvent_nullish on_event_nullish get_opt_nullish)
next
  case False
  then show ?thesis
    by (simp add: processSSEEvent_unfold on_event_unfold)
qed

theorem processSSEEvent_dispatch_witness:
  "get_opt (JObj [(''dataType'', JStr ''stream_end''), (''data'', JObj [(''chat_id'', JStr ''c7'')])])
      ''dataType'' \<notin> {JStr ''step_progress'', JStr ''answer'', JStr ''bus_data''}
   \<and> get_opt (JObj [(''dataType'', JStr ''stream_end''), (''data'', JObj [(''chat_id'', JStr ''c7'')])])
      ''dataType'' = JStr ''stream_end''
   \<and> truthy (get_opt (get_opt (JObj [(''dataType'', JStr ''stream_end''),
        (''data'', JObj [(''chat_id'', JStr ''c7'')])]) ''data'') ''chat_id'')
   \<and> processSSEEvent new_ai_msg
        (JObj [(''dataType'', JStr ''stream_end''), (''data'', JObj [(''chat_id'', JStr ''c7'')])])
      = Some new_ai_msg
   \<and> on_event (JObj [(''dataType'', JStr ''stream_end''), (''data'', JObj [(''chat_id'', JStr ''c7'')])])
        \<lparr>chatId = JNull, aiMsg = new_ai_msg\<rparr>
      = \<lparr>chatId = JStr ''c7'', aiMsg = new_ai_msg\<rparr>"
  using processSSEEvent_dispatch
    [of "JObj [(''dataType'', JStr ''stream_end''), (''data'', JObj [(''chat_id'', JStr ''c7'')])]"
        new_ai_msg "\<lparr>chatId = JNull, aiMsg = new_ai_msg\<rparr>"]
  by (simp add: get_opt_JObj processSSEEvent_unfold)

subsection \<open>Answer events\<close>

text \<open>
  C6. An \<open>answer\<close> event with a data object: when \<open>messageType\<close> is \<open>error\<close> the
  message's error becomes the content and nothing else changes, the summary included;
  otherwise only the summary changes, to the previous summary (the empty string when it
  was \<open>null\<close>) followed by the content. A string content is appended as it is; any
  other content is appended as its string rendering when truthy and as nothing when falsy.
\<close>

theorem process_answer_accumulates:
  assumes "get_opt evt ''dataType'' = JStr ''answer''"
    and "\<not> nullish (get_opt evt ''data'')"
  shows "processSSEEvent msg evt =
     Some (if get_opt (get_opt evt ''data'') ''messageType'' = JStr ''error''
           then msg\<lparr>error := get_opt (get_opt evt ''data'') ''content''\<rparr>
           else msg\<lparr>summary :=
                  Some ((case summary msg of None \<Rightarrow> [] | Some s \<Rightarrow> s)
                        @ (case get_opt (get_opt evt ''data'') ''content'' of
                             JStr c \<Rightarrow> c
                           | v \<Rightarrow> if truthy v then js_to_string v else []))\<rparr>)"
proof -
  from assms(1) have "\<not> nullish evt"
    by (auto simp: get_opt_nullish)
  with assms show ?thesis
    by (auto simp: processSSEEvent_unfold process_answer_def get_prop_get_opt js_or_def
          split: jsval.splits)
qed

theorem process_answer_accumulates_witness:
  "get_opt (JObj [(''dataType'', JStr ''answer''), (''data'', JObj [(''content'', JStr ''rows'')])])
      ''dataType'' = JStr ''answer''
   \<and> \<not> nullish (get_opt (JObj [(''dataType'', JStr ''answer''),
        (''data'', JObj [(''content'', JStr ''rows'')])]) ''data'')
   \<and> processSSEEvent (new_ai_msg\<lparr>summary := Some ''3 ''\<rparr>)
        (JObj [(''dataType'', JStr ''answer''), (''data'', JObj [(''content'', JStr ''rows'')])])
      = Some (new_ai_msg\<lparr>summary := Some ''3 rows''\<rparr>)"
  using process_answer_accumulates
    [of "JObj [(''dataType'', JStr ''answer''), (''data'', JObj [(''content'', JStr ''rows'')])]"
        "new_ai_msg\<lparr>summary := Some ''3 ''\<rparr>"]
  by (simp add: get_opt_JObj)

subsection \<open>Step progress\<close>

lemma step_le_refl: "step_le a a"
  by (simp add: step_le_def)

lemma step_le_trans: "step_le a b \<Longrightarrow> step_le b c \<Longrightarrow> step_le a c"
  by (auto simp: step_le_def)

lemma steps_forward_refl: "steps_forward ss ss"
  by (simp add: steps_forward_def list_all2_same step_le_refl)

lemma steps_forward_iff:
  "steps_forward old new \<longleftrightarrow>
     length old \<le> length new \<and> (\<forall>i < length old. step_le (old ! i) (new ! i))"
  by (auto simp: steps_forward_def list_all2_conv_all_nth)

lemma steps_forward_trans:
  "steps_forward a b \<Longrightarrow> steps_forward b c \<Longrightarrow> steps_forward a c"
  unfolding steps_forward_iff by (meson step_le_trans le_trans less_le_trans)

lemma mark_done_length [simp]: "length (mark_done n ss) = length ss"
  by (induction ss) auto

lemma mark_done_forward: "list_all2 step_le ss (mark_done n ss)"
  by (induction ss) (auto simp: step_le_def list_all2_same)

lemma mark_done_known: "steps_known ss \<Longrightarrow> steps_known (mark_done n ss)"
  by (induction ss) (auto simp: steps_known_def)

lemma steps_forward_append: "steps_forward ss (ss @ [s])"
  by (simp add: steps_forward_def list_all2_same step_le_refl)

lemma steps_forward_mark_done: "steps_forward ss (mark_done n ss)"
  by (simp add: steps_forward_def mark_done_forward)

lemma steps_known_append:
  "steps_known ss \<Longrightarrow> steps_known (ss @ [\<lparr>label = l, status = ''running''\<rparr>])"
  by (simp add: steps_known_def)

lemma process_step_progress_forward:
  "process_step_progress m d = Some m' \<Longrightarrow>
     steps_forward (steps m) (steps m') \<and> (steps_known (steps m) \<longrightarrow> steps_known (steps m'))"
  by (auto simp: process_step_progress_def steps_forward_append steps_forward_mark_done
        mark_done_known steps_known_append steps_forward_refl
        split: Option.bind_splits if_splits)

lemma process_answer_steps: "process_answer m d = Some m' \<Longrightarrow> steps m' = steps m"
  by (auto simp: process_answer_def split: Option.bind_splits if_splits)

lemma process_bus_data_steps: "process_bus_data m d = Some m' \<Longrightarrow> steps m' = steps m"
  by (auto simp: process_bus_data_def Let_def split: Option.bind_splits if_splits)

lemma processSSEEvent_forward:
  "processSSEEvent m evt = Some m' \<Longrightarrow>
     steps_forward (steps m) (steps m') \<and> (steps_known (steps m) \<longrightarrow> steps_known (steps m'))"
  by (cases "nullish evt")
     (auto simp: processSSEEvent_nullish processSSEEvent_unfold steps_forward_refl
        process_answer_steps process_bus_data_steps
        dest: process_step_progress_forward split: if_splits)

lemma on_event_forward:
  "steps_forward (steps (aiMsg r)) (steps (aiMsg (on_event evt r)))
   \<and> (steps_known (steps (aiMsg r)) \<longrightarrow> steps_known (steps (aiMsg (on_event evt r))))"
  by (cases "nullish evt")
     (auto simp: on_event_nullish on_event_unfold steps_forward_refl
        dest: processSSEEvent_forward split: option.splits)

text \<open>
  C5. Whatever events the run consumes, the step list only moves forward: every step
  that was in the list stays at its position with its label, and its status is what it
  was or \<open>done\<close>, so a done step stays done and a running step is running or done.
  When all statuses were \<open>running\<close> or \<open>done\<close> (as in the empty list a run starts
  with) they all still are: no step is ever pending.
\<close>

theorem steps_monotone:
  "steps_forward (steps (aiMsg r)) (steps (aiMsg (consume evts r)))
   \<and> (steps_known (steps (aiMsg r)) \<longrightarrow> steps_known (steps (aiMsg (consume evts r))))"
  unfolding consume_def
proof (induction evts arbitrary: r)
  case Nil
  show ?case by (simp add: steps_forward_refl)
next
  case (Cons e es)
  from on_event_forward [of r e] Cons.IH [of "on_event e r"]
  show ?case by (auto intro: steps_forward_trans)
qed

theorem steps_monotone_witness:
  "steps_known (steps (aiMsg \<lparr>chatId = JNull,
       aiMsg = new_ai_msg\<lparr>steps := [\<lparr>label = JStr ''sql'', status = ''running''\<rparr>]\<rparr>\<rparr>))
   \<and> steps (aiMsg (consume
        [JObj [(''dataType'', JStr ''step_progress''),
               (''data'', JObj [(''stepName'', JStr ''sql''), (''status'', JStr ''complete'')])],
         JObj [(''dataType'', JStr ''step_progress''),
               (''data'', JObj [(''step'', JStr ''chart''), (''status'', JStr ''start'')])]]
        \<lparr>chatId = JNull,
         aiMsg = new_ai_msg\<lparr>steps := [\<lparr>label = JStr ''sql'', status = ''running''\<rparr>]\<rparr>\<rparr>))
      = [\<lparr>label = JStr ''sql'', status = ''done''\<rparr>, \<lparr>label = JStr ''chart'', status = ''running''\<rparr>]
   \<and> steps_forward [\<lparr>label = JStr ''sql'', status = ''running''\<rparr>]
        [\<lparr>label = JStr ''sql'', status = ''done''\<rparr>, \<lparr>label = JStr ''chart'', status = ''running''\<rparr>]
   \<and> steps_known
        [\<lparr>label = JStr ''sql'', status = ''done''\<rparr>, \<lparr>label = JStr ''chart'', status = ''running''\<rparr>]"
proof -
  let ?r = "\<lparr>chatId = JNull,
       aiMsg = new_ai_msg\<lparr>steps := [\<lparr>label = JStr ''sql'', status = ''running''\<rparr>]\<rparr>\<rparr>"
  let ?evts = "[JObj [(''dataType'', JStr ''step_progress''),
               (''data'', JObj [(''stepName'', JStr ''sql''), (''status'', JStr ''complete'')])],
         JObj [(''dataType'', JStr ''step_progress''),
               (''data'', JObj [(''step'', JStr ''chart''), (''status'', JStr ''start'')])]]"
  have k: "steps_known (steps (aiMsg ?r))"
    by (simp add: steps_known_def)
  have c: "steps (aiMsg (consume ?evts ?r))
      = [\<lparr>label = JStr ''sql'', status = ''done''\<rparr>, \<lparr>label = JStr ''chart'', status = ''running''\<rparr>]"
    by (simp add: consume_def on_event_unfold processSSEEvent_unfold get_opt_JObj
          process_step_progress_def js_or_def)
  from steps_monotone [of ?r ?evts] k c show ?thesis
    by simp
qed

subsection \<open>Business data\<close>

lemma on_event_bus_data:
  "get_opt evt ''dataType'' = JStr ''bus_data'' \<Longrightarrow>
   on_event evt r = r\<lparr>aiMsg := bus_update (get_opt evt ''data'') (aiMsg r)\<rparr>"
  by (cases "nullish evt")
     (auto simp: on_event_unfold get_opt_nullish processSSEEvent_unfold bus_update_def
        split: option.splits)

lemma bus_update_nullish: "nullish d \<Longrightarrow> bus_update d m = m"
  by (simp add: bus_update_def process_bus_data_def get_prop_nullish)

lemma bus_update_unfold:
  "\<not> nullish d \<Longrightarrow> bus_update d m =
     set_recommended (get_opt d ''recommended_questions'')
       (set_sql (get_opt d ''sql'')
         (set_render (get_opt d ''render_data'')
           (set_chart (get_opt d ''chart_config'') m)))"
  by (simp add: bus_update_def process_bus_data_def get_prop_get_opt Let_def
        set_chart_def set_render_def set_sql_def set_recommended_def)

lemma set_undefined [simp]:
  "set_chart JUndefined m = m" "set_render JUndefined m = m"
  "set_sql JUndefined m = m" "set_recommended JUndefined m = m"
  by (simp_all add: set_chart_def set_render_def set_sql_def set_recommended_def)

lemma set_commute:
  "set_chart a (set_render b m) = set_render b (set_chart a m)"
  "set_chart a (set_sql c m) = set_sql c (set_chart a m)"
  "set_chart a (set_recommended e m) = set_recommended e (set_chart a m)"
  "set_render b (set_sql c m) = set_sql c (set_render b m)"
  "set_render b (set_recommended e m) = set_recommended e (set_render b m)"
  "set_sql c (set_recommended e m) = set_recommended e (set_sql c m)"
  by (simp_all add: set_chart_def set_render_def set_sql_def set_recommended_def)

lemma payload_fields_iff:
  "k \<in> set (payload_fields evt) \<longleftrightarrow>
     k \<in> set payload_keys \<and> get_opt (get_opt evt ''data'') k \<noteq> JUndefined"
  by (auto simp: payload_fields_def)

lemma bus_update_commute:
  assumes "\<forall>k \<in> set payload_keys. get_opt d k = JUndefined \<or> get_opt e k = JUndefined"
  shows "bus_update d (bus_update e m) = bus_update e (bus_update d m)"
proof (cases "nullish d \<or> nullish e")
  case True
  then show ?thesis by (auto simp: bus_update_nullish)
next
  case False
  from assms have cc: "get_opt d ''chart_config'' = JUndefined \<or> get_opt e ''chart_config'' = JUndefined"
    and rd: "get_opt d ''render_data'' = JUndefined \<or> get_opt e ''render_data'' = JUndefined"
    and sq: "get_opt d ''sql'' = JUndefined \<or> get_opt e ''sql'' = JUndefined"
    and rq: "get_opt d ''recommended_questions'' = JUndefined
             \<or> get_opt e ''recommended_questions'' = JUndefined"
    by (simp_all add: payload_keys_def)
  have u: "bus_update d = set_recommended (get_opt d ''recommended_questions'')
              \<circ> set_sql (get_opt d ''sql'') \<circ> set_render (get_opt d ''render_data'')
              \<circ> set_chart (get_opt d ''chart_config'')"
       "bus_update e = set_recommended (get_opt e ''recommended_questions'')
              \<circ> set_sql (get_opt e ''sql'') \<circ> set_render (get_opt e ''render_data'')
              \<circ> set_chart (get_opt e ''chart_config'')"
    using False by (simp_all add: fun_eq_iff bus_update_unfold)
  from cc show ?thesis
  proof
    assume c1: "get_opt d ''chart_config'' = JUndefined"
    from rd c1 sq rq show ?thesis
      by (elim disjE) (simp_all add: u set_commute)
  next
    assume c1: "get_opt e ''chart_config'' = JUndefined"
    from rd c1 sq rq show ?thesis
      by (elim disjE) (simp_all add: u set_commute)
  qed
qed

lemma distinct_concat_disjoint:
  "distinct (concat (map f xs)) \<Longrightarrow> x \<in> set xs \<Longrightarrow> y \<in> set xs \<Longrightarrow> x \<noteq> y \<Longrightarrow>
   set (f x) \<inter> set (f y) = {}"
  by (induction xs) auto

text \<open>
  C4. A sequence of \<open>bus_data\<close> events in which no payload field (\<open>sql\<close>,
  \<open>chart_config\<close>, \<open>render_data\<close>, \<open>recommended_questions\<close>) is carried by two
  events leaves the run in the same state in whatever order the events are consumed.
\<close>

theorem bus_data_order_irrelevant:
  assumes bus: "\<forall>e \<in> set evts. get_opt e ''dataType'' = JStr ''bus_data''"
    and dis: "distinct (concat (map payload_fields evts))"
    and perm: "mset evts' = mset evts"
  shows "consume evts' r = consume evts r"
proof -
  have comm: "on_event x \<circ> on_event y = on_event y \<circ> on_event x"
    if x: "x \<in> set evts" and y: "y \<in> set evts" for x y
  proof (cases "x = y")
    case True
    then show ?thesis by simp
  next
    case False
    with dis x y have "set (payload_fields x) \<inter> set (payload_fields y) = {}"
      by (rule_tac distinct_concat_disjoint)
    then have "\<forall>k \<in> set payload_keys.
        get_opt (get_opt x ''data'') k = JUndefined \<or> get_opt (get_opt y ''data'') k = JUndefined"
      by (auto simp: payload_fields_iff)
    then have "bus_update (get_opt x ''data'') (bus_update (get_opt y ''data'') m)
        = bus_update (get_opt y ''data'') (bus_update (get_opt x ''data'') m)" for m
      by (rule bus_update_commute)
    with bus x y show ?thesis
      by (simp add: fun_eq_iff on_event_bus_data)
  qed
  have "fold on_event evts = fold on_event evts'"
    by (rule fold_multiset_equiv) (use comm perm in auto)
  then show ?thesis by (simp add: consume_def)
qed

theorem bus_data_order_irrelevant_witness:
  "get_opt (JObj [(''dataType'', JStr ''bus_data''), (''data'', JObj [(''sql'', JStr ''select 1'')])])
      ''dataType'' = JStr ''bus_data''
   \<and> get_opt (JObj [(''dataType'', JStr ''bus_data''),
        (''data'', JObj [(''chart_config'', JObj [(''chart_type'', JStr ''pie'')])])])
      ''dataType'' = JStr ''bus_data''
   \<and> distinct (concat (map payload_fields
        [JObj [(''dataType'', JStr ''bus_data''), (''data'', JObj [(''sql'', JStr ''select 1'')])],
         JObj [(''dataType'', JStr ''bus_data''),
               (''data'', JObj [(''chart_config'', JObj [(''chart_type'', JStr ''pie'')])])]]))
   \<and> consume
        [JObj [(''dataType'', JStr ''bus_data''),
               (''data'', JObj [(''chart_config'', JObj [(''chart_type'', JStr ''pie'')])])],
         JObj [(''dataType'', JStr ''bus_data''), (''data'', JObj [(''sql'', JStr ''select 1'')])]]
        \<lparr>chatId = JNull, aiMsg = new_ai_msg\<rparr>
     = consume
        [JObj [(''dataType'', JStr ''bus_data''), (''data'', JObj [(''sql'', JStr ''select 1'')])],
         JObj [(''dataType'', JStr ''bus_data''),
               (''data'', JObj [(''chart_config'', JObj [(''chart_type'', JStr ''pie'')])])]]
        \<lparr>chatId = JNull, aiMsg = new_ai_msg\<rparr>
   \<and> sql (aiMsg (consume
        [JObj [(''dataType'', JStr ''bus_data''), (''data'', JObj [(''sql'', JStr ''select 1'')])],
         JObj [(''dataType'', JStr ''bus_data''),
               (''data'', JObj [(''chart_config'', JObj [(''chart_type'', JStr ''pie'')])])]]
        \<lparr>chatId = JNull, aiMsg = new_ai_msg\<rparr>)) = JStr ''select 1''"
proof -
  let ?a = "JObj [(''dataType'', JStr ''bus_data''), (''data'', JObj [(''sql'', JStr ''select 1'')])]"
  let ?b = "JObj [(''dataType'', JStr ''bus_data''),
               (''data'', JObj [(''chart_config'', JObj [(''chart_type'', JStr ''pie'')])])]"
  have h1: "\<forall>e \<in> set [?a, ?b]. get_opt e ''dataType'' = JStr ''bus_data''"
    by (simp add: get_opt_JObj)
  have h2: "distinct (concat (map payload_fields [?a, ?b]))"
    by (simp add: payload_fields_def payload_keys_def get_opt_JObj)
  have h3: "mset [?b, ?a] = mset [?a, ?b]"
    by simp
  have v: "sql (aiMsg (consume [?a, ?b] \<lparr>chatId = JNull, aiMsg = new_ai_msg\<rparr>)) = JStr ''select 1''"
    by (simp add: consume_def on_event_bus_data get_opt_JObj bus_update_unfold
          set_sql_def set_chart_def)
  from bus_data_order_irrelevant [OF h1 h2 h3, of "\<lparr>chatId = JNull, aiMsg = new_ai_msg\<rparr>"] h1 h2 v
  show ?thesis by simp
qed

section \<open>Properties of the chart component\<close>

subsection \<open>Evaluation\<close>

lemma get_opt_JArr:
  "get_opt (JArr xs) k = (case index_of_key k (length xs) of
             Some i \<Rightarrow> xs ! i
           | None \<Rightarrow> if k = ''length'' then JNum (int (length xs)) else JUndefined)"
  by (simp add: get_opt_def)

lemma get_opt_JStr:
  "get_opt (JStr s) k = (case index_of_key k (length s) of
             Some i \<Rightarrow> JStr [s ! i]
           | None \<Rightarrow> if k = ''length'' then JNum (int (length s)) else JUndefined)"
  by (simp add: get_opt_def)

lemma get_opt_prim:
  "get_opt JUndefined k = JUndefined" "get_opt JNull k = JUndefined"
  "get_opt (JBool b) k = JUndefined" "get_opt (JNum n) k = JUndefined"
  by (simp_all add: get_opt_def)

lemma index_of_key_0: "index_of_key ''0'' (Suc n) = Some 0"
proof -
  have "[0..<Suc n] = 0 # [Suc 0..<Suc n]"
    by (simp add: upt_conv_Cons del: upt_Suc)
  then show ?thesis
    by (simp add: index_of_key_def digit_char_def del: upt_Suc)
qed

lemma get_opt_JArr_truthy: "get_opt v k = JArr xs \<Longrightarrow> truthy v"
  by (cases v) (auto simp: get_opt_def split: option.splits if_splits)

lemma strip_leading_Nil: "strip_leading ws [] = []"
proof -
  have "find (\<lambda>w. w \<noteq> [] \<and> take (length w) [] = w) ws = None"
    by (auto simp: find_None_iff)
  then show ?thesis
    by (subst strip_leading.simps) simp
qed

lemma js_trim_Nil: "js_trim [] = []"
  by (simp add: js_trim_def strip_leading_Nil)

lemma palette_default: "getChartColors (\<lambda>i. []) = JArr (map JStr default_colors)"
  by (simp add: getChartColors_def js_trim_Nil Let_def)

lemmas chart_eval = chart_kind_def js_or_def get_opt_JObj get_opt_JArr get_opt_JStr get_opt_prim
  buildOption_def normalizeColumns_def index_of_key_def digit_char_def Let_def
  buildBarOption_def buildLineOption_def nth_or_undefined_def pluck_def palette_default
  caption_option_def initViewMode_def series_of_def category_data_def spread_def
  obj_set_def key_index_def

subsection \<open>The chart kind\<close>

lemma buildOption_unfold:
  assumes "\<not> nullish config"
    and "\<not> truthy (get_opt config ''series'')" and "\<not> truthy (get_opt config ''xAxis'')"
    and "\<not> truthy (get_opt config ''yAxis'')"
    and "normalizeColumns (js_or rdata (JObj [])) = Some columns"
  shows "buildOption css config rdata =
     (let data = js_or (get_opt rdata ''data'') (JArr []) in
      if get_opt data ''length'' = JNum 0 then Some (caption_option no_data_text)
      else if chart_kind config = JStr ''pie''
      then buildPieOption config data columns (getChartColors css)
      else if chart_kind config = JStr ''line''
      then buildLineOption config data columns (getChartColors css)
      else if chart_kind config = JStr ''table'' then Some (caption_option switch_to_table_text)
      else buildBarOption config data columns (getChartColors css))"
proof -
  have eq: "strict_eq v (JNum 0) = (v = JNum 0)" for v
    by (cases v) auto
  from assms show ?thesis
    by (simp add: buildOption_def get_prop_get_opt Let_def eq)
qed

lemma buildBarOption_not_caption:
  "buildBarOption config data columns colors \<noteq> Some (caption_option t)"
  by (auto simp: buildBarOption_def caption_option_def Let_def bind_eq_Some_conv)

lemma buildLineOption_not_caption:
  "buildLineOption config data columns colors \<noteq> Some (caption_option t)"
  by (auto simp: buildLineOption_def caption_option_def Let_def bind_eq_Some_conv)

lemma buildPieOption_not_caption:
  "buildPieOption config data columns colors \<noteq> Some (caption_option t)"
  by (auto simp: buildPieOption_def caption_option_def Let_def bind_eq_Some_conv)

text \<open>
  C2, as the code has it. Take a configuration that is not itself an ECharts option (no
  truthy \<open>series\<close>, \<open>xAxis\<close> or \<open>yAxis\<close>), data that is not empty, and a column list
  that \<open>normalizeColumns\<close> reads without throwing. When the chart kind is none of
  \<open>pie\<close>, \<open>line\<close> and \<open>table\<close> (absent and unrecognised kinds included),
  \<open>buildOption\<close> returns what \<open>buildBarOption\<close> returns: the default is the bar
  chart, not the table. And \<open>buildOption\<close> returns the caption that sends the user to
  the table view exactly when the kind is \<open>table\<close>.
\<close>

theorem buildOption_defaults_to_bar:
  assumes "\<not> nullish config"
    and "\<not> truthy (get_opt config ''series'')" and "\<not> truthy (get_opt config ''xAxis'')"
    and "\<not> truthy (get_opt config ''yAxis'')"
    and "normalizeColumns (js_or rdata (JObj [])) = Some columns"
    and "get_opt (js_or (get_opt rdata ''data'') (JArr [])) ''length'' \<noteq> JNum 0"
  shows "(chart_kind config \<notin> {JStr ''pie'', JStr ''line'', JStr ''table''} \<longrightarrow>
            buildOption css config rdata =
              buildBarOption config (js_or (get_opt rdata ''data'') (JArr [])) columns
                (getChartColors css))
       \<and> (buildOption css config rdata = Some (caption_option switch_to_table_text)
            \<longleftrightarrow> chart_kind config = JStr ''table'')"
  using assms
  by (simp add: buildOption_unfold Let_def buildBarOption_not_caption
        buildLineOption_not_caption buildPieOption_not_caption)

theorem buildOption_defaults_to_bar_witness:
  "\<not> nullish (JObj [(''chart_type'', JStr ''scatter'')])
   \<and> \<not> truthy (get_opt (JObj [(''chart_type'', JStr ''scatter'')]) ''series'')
   \<and> \<not> truthy (get_opt (JObj [(''chart_type'', JStr ''scatter'')]) ''xAxis'')
   \<and> \<not> truthy (get_opt (JObj [(''chart_type'', JStr ''scatter'')]) ''yAxis'')
   \<and> normalizeColumns (js_or (JObj [(''data'', JArr [JObj [(''city'', JStr ''Oslo''), (''total'', JNum 7)]])])
        (JObj [])) = Some [JStr ''city'', JStr ''total'']
   \<and> get_opt (js_or (get_opt (JObj [(''data'', JArr [JObj [(''city'', JStr ''Oslo''), (''total'', JNum 7)]])])
        ''data'') (JArr [])) ''length'' \<noteq> JNum 0
   \<and> chart_kind (JObj [(''chart_type'', JStr ''scatter'')])
        \<notin> {JStr ''pie'', JStr ''line'', JStr ''table''}
   \<and> buildOption (\<lambda>i. []) (JObj [(''chart_type'', JStr ''scatter'')])
        (JObj [(''data'', JArr [JObj [(''city'', JStr ''Oslo''), (''total'', JNum 7)]])])
      = buildBarOption (JObj [(''chart_type'', JStr ''scatter'')])
          (JArr [JObj [(''city'', JStr ''Oslo''), (''total'', JNum 7)]])
          [JStr ''city'', JStr ''total''] (JArr (map JStr default_colors))"
proof -
  let ?cfg = "JObj [(''chart_type'', JStr ''scatter'')]"
  let ?rd = "JObj [(''data'', JArr [JObj [(''city'', JStr ''Oslo''), (''total'', JNum 7)]])]"
  have h1: "\<not> nullish ?cfg" by simp
  have h2: "\<not> truthy (get_opt ?cfg ''series'')" by (simp add: get_opt_JObj)
  have h3: "\<not> truthy (get_opt ?cfg ''xAxis'')" by (simp add: get_opt_JObj)
  have h4: "\<not> truthy (get_opt ?cfg ''yAxis'')" by (simp add: get_opt_JObj)
  have h5: "normalizeColumns (js_or ?rd (JObj [])) = Some [JStr ''city'', JStr ''total'']"
    by (simp add: chart_eval)
  have h6: "get_opt (js_or (get_opt ?rd ''data'') (JArr [])) ''length'' \<noteq> JNum 0"
    by (simp add: chart_eval)
  have h7: "chart_kind ?cfg \<notin> {JStr ''pie'', JStr ''line'', JStr ''table''}"
    by (simp add: chart_kind_def js_or_def get_opt_JObj)
  from buildOption_defaults_to_bar [OF h1 h2 h3 h4 h5 h6, of "\<lambda>i. []"] h1 h2 h3 h4 h5 h6 h7
  show ?thesis
    by (simp add: palette_default js_or_def get_opt_JObj)
qed

text \<open>
  C2 as stated fails: for the unrecognised kind \<open>scatter\<close> on a one-row result the
  builder returns a bar chart, which is not the caption that sends the user to the table
  view, and \<open>initViewMode\<close> leaves the view on the chart.
\<close>

theorem unknown_kind_is_not_table:
  "chart_kind (JObj [(''chart_type'', JStr ''scatter'')])
     \<notin> {JStr ''pie'', JStr ''line'', JStr ''table''}
   \<and> buildOption (\<lambda>i. []) (JObj [(''chart_type'', JStr ''scatter'')])
        (JObj [(''columns'', JArr [JStr ''city'', JStr ''total'']),
               (''data'', JArr [JObj [(''city'', JStr ''Oslo''), (''total'', JNum 7)]])])
     = Some (JObj
         [(''color'', JArr (map JStr default_colors)),
          (''tooltip'', JObj [(''trigger'', JStr ''axis'')]),
          (''grid'', pct_grid),
          (''xAxis'', JObj [(''type'', JStr ''category''), (''data'', JArr [JStr ''Oslo'']),
             (''axisLabel'', JObj [(''rotate'', JNum 0)])]),
          (''yAxis'', JObj [(''type'', JStr ''value'')]),
          (''series'', JArr [JObj [(''name'', JStr ''total''), (''type'', JStr ''bar''),
             (''data'', JArr [JNum 7])]])])
   \<and> buildOption (\<lambda>i. []) (JObj [(''chart_type'', JStr ''scatter'')])
        (JObj [(''columns'', JArr [JStr ''city'', JStr ''total'']),
               (''data'', JArr [JObj [(''city'', JStr ''Oslo''), (''total'', JNum 7)]])])
     \<noteq> Some (caption_option switch_to_table_text)
   \<and> viewMode (initViewMode \<lparr>chartRef = True,
        props_config = JObj [(''chart_type'', JStr ''scatter'')],
        props_data = JObj [(''columns'', JArr [JStr ''city'', JStr ''total'']),
               (''data'', JArr [JObj [(''city'', JStr ''Oslo''), (''total'', JNum 7)]])],
        viewMode = ''chart'', chartInstance = None\<rparr>) = ''chart''"
  by (simp add: chart_eval)

subsection \<open>Field mappings of bar and line charts\<close>

lemma those_series:
  "those (map (\<lambda>field. Option.bind (pluck data field) (\<lambda>ys. Some (mk field ys))) flds) = Some ss \<Longrightarrow>
   (\<And>f ys. get_opt (mk f ys) ''name'' = f) \<Longrightarrow> (\<And>f ys. get_opt (mk f ys) ''data'' = ys) \<Longrightarrow>
   map (\<lambda>s. get_opt s ''name'') ss = flds
   \<and> map (\<lambda>s. Some (get_opt s ''data'')) ss = map (pluck data) flds"
proof (induction flds arbitrary: ss)
  case Nil
  then show ?case by simp
next
  case (Cons f fs)
  then show ?case
    by (auto split: option.splits Option.bind_splits)
qed

lemma buildBarOption_Some:
  assumes "buildBarOption config data columns colors = Some opt"
  obtains xs flds ss where
    "pluck data (js_or (get_opt config ''x_field'') (nth_or_undefined columns 0)) = Some xs"
    "js_or (get_opt config ''y_fields'') (JArr (drop 1 columns)) = JArr flds"
    "those (map (\<lambda>field. Option.bind (pluck data field)
        (\<lambda>ys. Some (JObj [(''name'', field), (''type'', JStr ''bar''), (''data'', ys)]))) flds) = Some ss"
    "category_data opt = xs" "series_of opt = ss"
proof -
  from assms have nn: "\<not> nullish config"
    by (auto simp: buildBarOption_def get_prop_nullish)
  define yFields where "yFields = js_or (get_opt config ''y_fields'') (JArr (drop 1 columns))"
  from assms nn obtain xs where
    xs: "pluck data (js_or (get_opt config ''x_field'') (nth_or_undefined columns 0)) = Some xs"
    by (auto simp: buildBarOption_def get_prop_get_opt Let_def bind_eq_Some_conv)
  with assms nn obtain ss where
    ss: "(case yFields of
          JArr flds \<Rightarrow> those (map (\<lambda>field. Option.bind (pluck data field)
            (\<lambda>ys. Some (JObj [(''name'', field), (''type'', JStr ''bar''), (''data'', ys)]))) flds)
        | _ \<Rightarrow> None) = Some ss"
    and opt: "category_data opt = xs" "series_of opt = ss"
    by (auto simp: buildBarOption_def get_prop_get_opt Let_def bind_eq_Some_conv yFields_def
          category_data_def series_of_def get_opt_JObj)
  from ss obtain flds where "yFields = JArr flds"
    by (cases yFields) simp_all
  with ss xs opt that show thesis
    by (simp add: yFields_def)
qed

lemma buildLineOption_Some:
  assumes "buildLineOption config data columns colors = Some opt"
  obtains xs flds ss where
    "pluck data (js_or (get_opt config ''x_field'') (nth_or_undefined columns 0)) = Some xs"
    "js_or (get_opt config ''y_fields'') (JArr (drop 1 columns)) = JArr flds"
    "those (map (\<lambda>field. Option.bind (pluck data field)
        (\<lambda>ys. Some (JObj [(''name'', field), (''type'', JStr ''line''), (''smooth'', JBool True),
           (''data'', ys)]))) flds) = Some ss"
    "category_data opt = xs" "series_of opt = ss"
proof -
  from assms have nn: "\<not> nullish config"
    by (auto simp: buildLineOption_def get_prop_nullish)
  define yFields where "yFields = js_or (get_opt config ''y_fields'') (JArr (drop 1 columns))"
  from assms nn obtain xs where
    xs: "pluck data (js_or (get_opt config ''x_field'') (nth_or_undefined columns 0)) = Some xs"
    by (auto simp: buildLineOption_def get_prop_get_opt Let_def bind_eq_Some_conv)
  with assms nn obtain ss where
    ss: "(case yFields of
          JArr flds \<Rightarrow> those (map (\<lambda>field. Option.bind (pluck data field)
            (\<lambda>ys. Some (JObj [(''name'', field), (''type'', JStr ''line''),
               (''smooth'', JBool True), (''data'', ys)]))) flds)
        | _ \<Rightarrow> None) = Some ss"
    and opt: "category_data opt = xs" "series_of opt = ss"
    by (auto simp: buildLineOption_def get_prop_get_opt Let_def bind_eq_Some_conv yFields_def
          category_data_def series_of_def get_opt_JObj)
  from ss obtain flds where "yFields = JArr flds"
    by (cases yFields) simp_all
  with ss xs opt that show thesis
    by (simp add: yFields_def)
qed

lemma fallbacks:
  assumes xs: "pluck data (js_or (get_opt config ''x_field'') (nth_or_undefined columns 0)) = Some xs"
    and flds: "js_or (get_opt config ''y_fields'') (JArr (drop 1 columns)) = JArr flds"
    and ss: "map (\<lambda>s. get_opt s ''name'') ss = flds
       \<and> map (\<lambda>s. Some (get_opt s ''data'')) ss = map (pluck data) flds"
  shows "(\<not> truthy (get_opt config ''x_field'')
            \<longrightarrow> pluck data (nth_or_undefined columns 0) = Some xs)
       \<and> (truthy (get_opt config ''x_field'')
            \<longrightarrow> pluck data (get_opt config ''x_field'') = Some xs)
       \<and> (\<not> truthy (get_opt config ''y_fields'')
            \<longrightarrow> map (\<lambda>s. get_opt s ''name'') ss = drop 1 columns
              \<and> map (\<lambda>s. Some (get_opt s ''data'')) ss = map (pluck data) (drop 1 columns))
       \<and> (truthy (get_opt config ''y_fields'')
            \<longrightarrow> get_opt config ''y_fields'' = JArr (map (\<lambda>s. get_opt s ''name'') ss)
              \<and> map (\<lambda>s. Some (get_opt s ''data'')) ss
                  = map (pluck data) (map (\<lambda>s. get_opt s ''name'') ss))"
  using assms by (auto simp: js_or_def)

text \<open>
  C8, as the code has it. In an option built by \<open>buildBarOption\<close> or
  \<open>buildLineOption\<close> each of the two mappings is used when it is there and falls back
  on its own when it is not. The category axis holds the values of the \<open>x_field\<close>
  column, and of the first column when there is no \<open>x_field\<close>. The series are one per
  entry of \<open>y_fields\<close>, and one per remaining column when there is no \<open>y_fields\<close>;
  each series is named after its column and holds that column's values.
\<close>

theorem axis_field_fallbacks:
  assumes "build = buildBarOption \<or> build = buildLineOption"
    and "build config data columns colors = Some opt"
  shows "(\<not> truthy (get_opt config ''x_field'')
            \<longrightarrow> pluck data (nth_or_undefined columns 0) = Some (category_data opt))
       \<and> (truthy (get_opt config ''x_field'')
            \<longrightarrow> pluck data (get_opt config ''x_field'') = Some (category_data opt))
       \<and> (\<not> truthy (get_opt config ''y_fields'')
            \<longrightarrow> map (\<lambda>s. get_opt s ''name'') (series_of opt) = drop 1 columns
              \<and> map (\<lambda>s. Some (get_opt s ''data'')) (series_of opt)
                  = map (pluck data) (drop 1 columns))
       \<and> (truthy (get_opt config ''y_fields'')
            \<longrightarrow> get_opt config ''y_fields'' = JArr (map (\<lambda>s. get_opt s ''name'') (series_of opt))
              \<and> map (\<lambda>s. Some (get_opt s ''data'')) (series_of opt)
                  = map (pluck data) (map (\<lambda>s. get_opt s ''name'') (series_of opt)))"
  using assms(1)
proof
  assume "build = buildBarOption"
  with assms(2) have "buildBarOption config data columns colors = Some opt"
    by simp
  then obtain xs flds ss where
    a: "pluck data (js_or (get_opt config ''x_field'') (nth_or_undefined columns 0)) = Some xs"
    "js_or (get_opt config ''y_fields'') (JArr (drop 1 columns)) = JArr flds"
    and t: "those (map (\<lambda>field. Option.bind (pluck data field)
        (\<lambda>ys. Some (JObj [(''name'', field), (''type'', JStr ''bar''), (''data'', ys)]))) flds) = Some ss"
    and o: "category_data opt = xs" "series_of opt = ss"
    by (rule buildBarOption_Some)
  from t have "map (\<lambda>s. get_opt s ''name'') ss = flds
       \<and> map (\<lambda>s. Some (get_opt s ''data'')) ss = map (pluck data) flds"
    by (rule those_series) (simp_all add: get_opt_JObj)
  with a show ?thesis
    unfolding o by (rule fallbacks)
next
  assume "build = buildLineOption"
  with assms(2) have "buildLineOption config data columns colors = Some opt"
    by simp
  then obtain xs flds ss where
    a: "pluck data (js_or (get_opt config ''x_field'') (nth_or_undefined columns 0)) = Some xs"
    "js_or (get_opt config ''y_fields'') (JArr (drop 1 columns)) = JArr flds"
    and t: "those (map (\<lambda>field. Option.bind (pluck data field)
        (\<lambda>ys. Some (JObj [(''name'', field), (''type'', JStr ''line''), (''smooth'', JBool True),
           (''data'', ys)]))) flds) = Some ss"
    and o: "category_data opt = xs" "series_of opt = ss"
    by (rule buildLineOption_Some)
  from t have "map (\<lambda>s. get_opt s ''name'') ss = flds
       \<and> map (\<lambda>s. Some (get_opt s ''data'')) ss = map (pluck data) flds"
    by (rule those_series) (simp_all add: get_opt_JObj)
  with a show ?thesis
    unfolding o by (rule fallbacks)
qed

theorem axis_field_fallbacks_witness:
  "\<not> truthy (get_opt (JObj [(''y_fields'', JArr [JStr ''c''])]) ''x_field'')
   \<and> truthy (get_opt (JObj [(''y_fields'', JArr [JStr ''c''])]) ''y_fields'')
   \<and> buildBarOption (JObj [(''y_fields'', JArr [JStr ''c''])])
        (JArr [JObj [(''a'', JStr ''x''), (''b'', JNum 2), (''c'', JNum 3)]])
        [JStr ''a'', JStr ''b'', JStr ''c''] (JArr [])
      = Some (JObj
         [(''color'', JArr []),
          (''tooltip'', JObj [(''trigger'', JStr ''axis'')]),
          (''grid'', pct_grid),
          (''xAxis'', JObj [(''type'', JStr ''category''), (''data'', JArr [JStr ''x'']),
             (''axisLabel'', JObj [(''rotate'', JNum 0)])]),
          (''yAxis'', JObj [(''type'', JStr ''value'')]),
          (''series'', JArr
             [JObj [(''name'', JStr ''c''), (''type'', JStr ''bar''), (''data'', JArr [JNum 3])]])])
   \<and> pluck (JArr [JObj [(''a'', JStr ''x''), (''b'', JNum 2), (''c'', JNum 3)]])
        (nth_or_undefined [JStr ''a'', JStr ''b'', JStr ''c''] 0) = Some (JArr [JStr ''x''])
   \<and> truthy (get_opt (JObj [(''x_field'', JStr ''b'')]) ''x_field'')
   \<and> \<not> truthy (get_opt (JObj [(''x_field'', JStr ''b'')]) ''y_fields'')
   \<and> buildLineOption (JObj [(''x_field'', JStr ''b'')])
        (JArr [JObj [(''a'', JStr ''x''), (''b'', JNum 2), (''c'', JNum 3)]])
        [JStr ''a'', JStr ''b'', JStr ''c''] (JArr [])
      = Some (JObj
         [(''color'', JArr []),
          (''tooltip'', JObj [(''trigger'', JStr ''axis'')]),
          (''grid'', pct_grid),
          (''xAxis'', JObj [(''type'', JStr ''category''), (''data'', JArr [JNum 2])]),
          (''yAxis'', JObj [(''type'', JStr ''value'')]),
          (''series'', JArr
             [JObj [(''name'', JStr ''b''), (''type'', JStr ''line''), (''smooth'', JBool True),
                    (''data'', JArr [JNum 2])],
              JObj [(''name'', JStr ''c''), (''type'', JStr ''line''), (''smooth'', JBool True),
                    (''data'', JArr [JNum 3])]])])
   \<and> pluck (JArr [JObj [(''a'', JStr ''x''), (''b'', JNum 2), (''c'', JNum 3)]]) (JStr ''b'')
      = Some (JArr [JNum 2])"
proof -
  let ?cfg1 = "JObj [(''y_fields'', JArr [JStr ''c''])]"
  let ?cfg2 = "JObj [(''x_field'', JStr ''b'')]"
  let ?data = "JArr [JObj [(''a'', JStr ''x''), (''b'', JNum 2), (''c'', JNum 3)]]"
  let ?opt1 = "JObj
         [(''color'', JArr []),
          (''tooltip'', JObj [(''trigger'', JStr ''axis'')]),
          (''grid'', pct_grid),
          (''xAxis'', JObj [(''type'', JStr ''category''), (''data'', JArr [JStr ''x'']),
             (''axisLabel'', JObj [(''rotate'', JNum 0)])]),
          (''yAxis'', JObj [(''type'', JStr ''value'')]),
          (''series'', JArr
             [JObj [(''name'', JStr ''c''), (''type'', JStr ''bar''), (''data'', JArr [JNum 3])]])]"
  let ?opt2 = "JObj
         [(''color'', JArr []),
          (''tooltip'', JObj [(''trigger'', JStr ''axis'')]),
          (''grid'', pct_grid),
          (''xAxis'', JObj [(''type'', JStr ''category''), (''data'', JArr [JNum 2])]),
          (''yAxis'', JObj [(''type'', JStr ''value'')]),
          (''series'', JArr
             [JObj [(''name'', JStr ''b''), (''type'', JStr ''line''), (''smooth'', JBool True),
                    (''data'', JArr [JNum 2])],
              JObj [(''name'', JStr ''c''), (''type'', JStr ''line''), (''smooth'', JBool True),
                    (''data'', JArr [JNum 3])]])]"
  have b1: "buildBarOption = buildBarOption \<or> buildBarOption = buildLineOption"
    and b2: "buildLineOption = buildBarOption \<or> buildLineOption = buildLineOption"
    by simp_all
  have h1: "buildBarOption ?cfg1 ?data [JStr ''a'', JStr ''b'', JStr ''c''] (JArr []) = Some ?opt1"
    by (simp add: chart_eval)
  have h2: "buildLineOption ?cfg2 ?data [JStr ''a'', JStr ''b'', JStr ''c''] (JArr []) = Some ?opt2"
    by (simp add: chart_eval)
  have t: "\<not> truthy (get_opt ?cfg1 ''x_field'')" "truthy (get_opt ?cfg1 ''y_fields'')"
    "truthy (get_opt ?cfg2 ''x_field'')" "\<not> truthy (get_opt ?cfg2 ''y_fields'')"
    by (simp_all add: get_opt_JObj)
  have c: "category_data ?opt1 = JArr [JStr ''x'']" "category_data ?opt2 = JArr [JNum 2]"
    by (simp_all add: category_data_def get_opt_JObj)
  from axis_field_fallbacks [OF b1 h1] t(1)
  have p1: "pluck ?data (nth_or_undefined [JStr ''a'', JStr ''b'', JStr ''c''] 0)
      = Some (JArr [JStr ''x''])"
    unfolding c by blast
  from axis_field_fallbacks [OF b2 h2] t(3)
  have p2: "pluck ?data (get_opt ?cfg2 ''x_field'') = Some (JArr [JNum 2])"
    unfolding c by blast
  have x: "get_opt ?cfg2 ''x_field'' = JStr ''b''"
    by (simp add: get_opt_JObj)
  from p1 p2 [unfolded x] h1 h2 t show ?thesis
    by (intro conjI)
qed

text \<open>
  C8 as stated fails: a configuration with \<open>y_fields\<close> and no \<open>x_field\<close> has a
  missing mapping, yet its series are the listed \<open>y_fields\<close>, not all remaining columns.
\<close>

theorem missing_x_field_keeps_y_fields:
  "\<not> truthy (get_opt (JObj [(''y_fields'', JArr [JStr ''b''])]) ''x_field'')
   \<and> map (\<lambda>s. get_opt s ''name'')
       (case buildBarOption (JObj [(''y_fields'', JArr [JStr ''b''])])
               (JArr [JObj [(''a'', JStr ''x''), (''b'', JNum 2), (''c'', JNum 3)]])
               [JStr ''a'', JStr ''b'', JStr ''c''] (JArr []) of
          Some option \<Rightarrow> series_of option | None \<Rightarrow> [])
     = [JStr ''b'']
   \<and> drop 1 [JStr ''a'', JStr ''b'', JStr ''c''] = [JStr ''b'', JStr ''c'']
   \<and> map (\<lambda>s. get_opt s ''name'')
       (case buildLineOption (JObj [(''y_fields'', JArr [JStr ''b''])])
               (JArr [JObj [(''a'', JStr ''x''), (''b'', JNum 2), (''c'', JNum 3)]])
               [JStr ''a'', JStr ''b'', JStr ''c''] (JArr []) of
          Some option \<Rightarrow> series_of option | None \<Rightarrow> [])
     = [JStr ''b'']"
  by (simp add: chart_eval)

subsection \<open>Degenerate inputs\<close>

lemma normalizeColumns_no_columns:
  assumes "\<not> truthy (get_opt (get_opt rdata ''columns'') ''length'')"
  shows "normalizeColumns rdata =
     Some (if truthy (get_opt (get_opt rdata ''data'') ''0'')
           then map (\<lambda>(k, v). JStr k) (own_entries (get_opt (get_opt rdata ''data'') ''0''))
           else [])"
  using assms by (simp add: normalizeColumns_def Let_def)

lemma normalizeColumns_array:
  "get_opt rdata ''columns'' = JArr cols \<Longrightarrow> \<exists>y. normalizeColumns rdata = Some y"
  by (simp add: normalizeColumns_def Let_def)

text \<open>
  C10, as the code has it. Without a \<open>columns\<close> list (the entry is absent, \<open>null\<close>
  or of length zero) \<open>normalizeColumns\<close> returns and, when the first row is an object,
  gives its keys. On an empty data array \<open>buildOption\<close> returns the no-data caption,
  which has no series, provided the configuration is not itself an ECharts option and
  \<open>columns\<close> is such an entry or an array. With a falsy configuration (\<open>null\<close>
  included) \<open>renderChart\<close> returns at once and changes nothing.
\<close>

theorem chart_degenerate_inputs:
  "(\<not> truthy (get_opt (get_opt rdata ''columns'') ''length'') \<longrightarrow>
      (\<exists>cols. normalizeColumns rdata = Some cols)
      \<and> (get_opt rdata ''data'' = JArr (JObj kvs # rows)
           \<longrightarrow> normalizeColumns rdata = Some (map (\<lambda>(k, v). JStr k) kvs)))
   \<and> (\<not> nullish config \<and> \<not> truthy (get_opt config ''series'')
        \<and> \<not> truthy (get_opt config ''xAxis'') \<and> \<not> truthy (get_opt config ''yAxis'')
        \<and> get_opt rdata' ''data'' = JArr []
        \<and> (\<not> truthy (get_opt (get_opt rdata' ''columns'') ''length'')
             \<or> (\<exists>cols. get_opt rdata' ''columns'' = JArr cols))
      \<longrightarrow> buildOption css config rdata' = Some (caption_option no_data_text)
          \<and> series_of (caption_option no_data_text) = [])
   \<and> (\<not> truthy (props_config c) \<longrightarrow> renderChart css c = Normal c)"
proof (intro conjI impI)
  assume "\<not> truthy (get_opt (get_opt rdata ''columns'') ''length'')"
  then show "\<exists>cols. normalizeColumns rdata = Some cols"
    by (simp add: normalizeColumns_no_columns)
next
  assume "\<not> truthy (get_opt (get_opt rdata ''columns'') ''length'')"
    and "get_opt rdata ''data'' = JArr (JObj kvs # rows)"
  then show "normalizeColumns rdata = Some (map (\<lambda>(k, v). JStr k) kvs)"
    by (simp add: normalizeColumns_no_columns get_opt_def [of "JArr (JObj kvs # rows)"] index_of_key_0)
next
  assume a: "\<not> nullish config \<and> \<not> truthy (get_opt config ''series'')
        \<and> \<not> truthy (get_opt config ''xAxis'') \<and> \<not> truthy (get_opt config ''yAxis'')
        \<and> get_opt rdata' ''data'' = JArr []
        \<and> (\<not> truthy (get_opt (get_opt rdata' ''columns'') ''length'')
             \<or> (\<exists>cols. get_opt rdata' ''columns'' = JArr cols))"
  then have "truthy rdata'"
    by (auto dest: get_opt_JArr_truthy)
  then have r: "js_or rdata' (JObj []) = rdata'"
    by (simp add: js_or_def)
  from a have "\<exists>y. normalizeColumns rdata' = Some y"
    by (auto simp: normalizeColumns_no_columns normalizeColumns_array)
  then obtain columns where "normalizeColumns (js_or rdata' (JObj [])) = Some columns"
    using r by auto
  with a show "buildOption css config rdata' = Some (caption_option no_data_text)"
    by (simp add: buildOption_unfold js_or_def get_opt_def [of "JArr []"] index_of_key_def)
next
  show "series_of (caption_option no_data_text) = []"
    by (simp add: series_of_def caption_option_def get_opt_JObj)
next
  assume "\<not> truthy (props_config c)"
  then show "renderChart css c = Normal c"
    by (simp add: renderChart_def)
qed

theorem chart_degenerate_inputs_witness:
  "\<not> truthy (get_opt (get_opt
        (JObj [(''data'', JArr [JObj [(''city'', JStr ''Oslo''), (''total'', JNum 7)]])])
        ''columns'') ''length'')
   \<and> normalizeColumns (JObj [(''data'', JArr [JObj [(''city'', JStr ''Oslo''), (''total'', JNum 7)]])])
      = Some [JStr ''city'', JStr ''total'']
   \<and> \<not> nullish (JObj [(''chart_type'', JStr ''bar'')])
   \<and> \<not> truthy (get_opt (JObj [(''chart_type'', JStr ''bar'')]) ''series'')
   \<and> \<not> truthy (get_opt (JObj [(''chart_type'', JStr ''bar'')]) ''xAxis'')
   \<and> \<not> truthy (get_opt (JObj [(''chart_type'', JStr ''bar'')]) ''yAxis'')
   \<and> get_opt (JObj [(''columns'', JArr [JStr ''city'']), (''data'', JArr [])]) ''data'' = JArr []
   \<and> get_opt (JObj [(''columns'', JArr [JStr ''city'']), (''data'', JArr [])]) ''columns''
        = JArr [JStr ''city'']
   \<and> buildOption (\<lambda>i. []) (JObj [(''chart_type'', JStr ''bar'')])
        (JObj [(''columns'', JArr [JStr ''city'']), (''data'', JArr [])])
      = Some (caption_option no_data_text)
   \<and> \<not> truthy (props_config \<lparr>chartRef = True, props_config = JNull, props_data = JNull,
        viewMode = ''chart'', chartInstance = None\<rparr>)
   \<and> renderChart (\<lambda>i. []) \<lparr>chartRef = True, props_config = JNull, props_data = JNull,
        viewMode = ''chart'', chartInstance = None\<rparr>
      = Normal \<lparr>chartRef = True, props_config = JNull, props_data = JNull,
        viewMode = ''chart'', chartInstance = None\<rparr>"
  using chart_degenerate_inputs
    [of "JObj [(''data'', JArr [JObj [(''city'', JStr ''Oslo''), (''total'', JNum 7)]])]"
        "[(''city'', JStr ''Oslo''), (''total'', JNum 7)]" "[]"
        "JObj [(''chart_type'', JStr ''bar'')]"
        "JObj [(''columns'', JArr [JStr ''city'']), (''data'', JArr [])]"
        "\<lambda>i. []"
        "\<lparr>chartRef = True, props_config = JNull, props_data = JNull,
          viewMode = ''chart'', chartInstance = None\<rparr>"]
  by (simp add: get_opt_JObj get_opt_prim)

text \<open>
  C10 as stated fails on empty data: a configuration that carries its own \<open>series\<close>
  is returned with that series, not as the no-data caption; and a \<open>columns\<close> entry
  that is a string makes \<open>buildOption\<close> throw.
\<close>

theorem buildOption_empty_data_not_placeholder:
  "get_opt (JObj [(''data'', JArr [])]) ''data'' = JArr []
   \<and> buildOption (\<lambda>i. []) (JObj [(''series'', JArr [JObj [(''type'', JStr ''bar'')]])])
        (JObj [(''data'', JArr [])])
      = Some (JObj [(''tooltip'', JObj [(''trigger'', JStr ''axis'')]), (''grid'', pct_grid),
          (''series'', JArr [JObj [(''type'', JStr ''bar'')]]),
          (''color'', JArr (map JStr default_colors))])
   \<and> buildOption (\<lambda>i. []) (JObj [(''series'', JArr [JObj [(''type'', JStr ''bar'')]])])
        (JObj [(''data'', JArr [])])
      \<noteq> Some (caption_option no_data_text)
   \<and> buildOption (\<lambda>i. []) (JObj [(''chart_type'', JStr ''bar'')])
        (JObj [(''columns'', JStr ''city''), (''data'', JArr [])]) = None"
  by (simp add: chart_eval)


section \<open>Properties of the page\<close>

subsection \<open>One run at a time\<close>

lemma handleSend_streaming: "streaming p \<Longrightarrow> handleSend p = (p, None)"
  by (simp add: handleSend_def Let_def)

lemma one_run_handleSend: "one_run p \<Longrightarrow> one_run (fst (handleSend p))"
  by (auto simp: handleSend_def Let_def one_run_def split: if_splits)

lemma one_run_remove:
  assumes "one_run p" and "a \<in> set (inflight p)"
  shows "remove1 a (inflight p) = []"
proof -
  from assms have "length (inflight p) = 1"
    by (auto simp: one_run_def split: if_splits)
  then obtain b where "inflight p = [b]"
    by (cases "inflight p") auto
  with assms(2) show ?thesis by simp
qed

lemma one_run_step: "one_run p \<Longrightarrow> page_step act p = Some p' \<Longrightarrow> one_run p'"
proof (cases act)
  case HandleSend
  assume "one_run p" "page_step act p = Some p'"
  with HandleSend show ?thesis
    using one_run_handleSend [of p] by auto
qed (auto simp: one_run_def Let_def handleNewChat_def one_run_remove [unfolded one_run_def]
       split: if_splits)

lemma one_run_run: "one_run p \<Longrightarrow> run acts p = Some p' \<Longrightarrow> one_run p'"
  by (induction acts arbitrary: p) (auto split: option.splits dest: one_run_step)

lemma one_run_initial: "one_run initial_page"
  by (simp add: one_run_def initial_page_def)

lemma streaming_reset_only_at_end:
  "page_step act p = Some p' \<Longrightarrow> streaming p \<Longrightarrow> \<not> streaming p' \<Longrightarrow> ends_run act"
  by (cases act) (auto simp: handleSend_streaming Let_def handleNewChat_def split: if_splits)

lemma ends_run_resets:
  "one_run p \<Longrightarrow> ends_run act \<Longrightarrow> page_step act p = Some p' \<Longrightarrow>
   \<not> streaming p' \<and> inflight p' = []"
  by (cases act) (auto simp: one_run_remove split: if_splits)

text \<open>
  C7. In every state the page reaches, at most one activation of \<open>handleSend\<close> is in
  flight, and \<open>streaming\<close> is set exactly while one is. While it is set,
  \<open>handleSend\<close> does nothing and sends nothing. A step that clears \<open>streaming\<close> is
  the end of an activation (response not ok, end of stream, or exception), and every such
  end clears it and leaves no activation in flight.
\<close>

theorem one_run_at_a_time:
  assumes "run acts initial_page = Some p"
  shows "length (inflight p) \<le> 1
    \<and> (streaming p \<longleftrightarrow> inflight p \<noteq> [])
    \<and> (streaming p \<longrightarrow> handleSend p = (p, None))
    \<and> (\<forall>act p'. page_step act p = Some p' \<and> streaming p \<and> \<not> streaming p' \<longrightarrow> ends_run act)
    \<and> (\<forall>act p'. page_step act p = Some p' \<and> ends_run act \<longrightarrow> \<not> streaming p' \<and> inflight p' = [])"
proof -
  from assms have inv: "one_run p"
    by (rule one_run_run [OF one_run_initial])
  then have "length (inflight p) \<le> 1" "streaming p \<longleftrightarrow> inflight p \<noteq> []"
    by (auto simp: one_run_def split: if_splits)
  with inv show ?thesis
    by (auto simp: handleSend_streaming dest: streaming_reset_only_at_end ends_run_resets)
qed

theorem one_run_at_a_time_witness:
  "run [SetInput '' top 10 '', SelectDatasource (JNum 3), HandleSend] initial_page
     = Some (initial_page\<lparr>currentDsId := JNum 3, streaming := True,
         messages := [UserMsg ''top 10'', AiRef 0], heap := [new_ai_msg], inflight := [0]\<rparr>)
   \<and> handleSend (initial_page\<lparr>currentDsId := JNum 3, streaming := True,
         messages := [UserMsg ''top 10'', AiRef 0], heap := [new_ai_msg], inflight := [0]\<rparr>)
     = (initial_page\<lparr>currentDsId := JNum 3, streaming := True,
         messages := [UserMsg ''top 10'', AiRef 0], heap := [new_ai_msg], inflight := [0]\<rparr>, None)
   \<and> page_step (StreamDone 0) (initial_page\<lparr>currentDsId := JNum 3, streaming := True,
         messages := [UserMsg ''top 10'', AiRef 0], heap := [new_ai_msg], inflight := [0]\<rparr>)
     = Some (initial_page\<lparr>currentDsId := JNum 3, streaming := False,
         messages := [UserMsg ''top 10'', AiRef 0], heap := [new_ai_msg], inflight := []\<rparr>)
   \<and> ends_run (StreamDone 0)"
proof -
  let ?p = "initial_page\<lparr>currentDsId := JNum 3, streaming := True,
         messages := [UserMsg ''top 10'', AiRef 0], heap := [new_ai_msg], inflight := [0]\<rparr>"
  have h: "run [SetInput '' top 10 '', SelectDatasource (JNum 3), HandleSend] initial_page = Some ?p"
    by code_simp
  have s: "streaming ?p"
    by simp
  have d: "page_step (StreamDone 0) ?p
     = Some (initial_page\<lparr>currentDsId := JNum 3, streaming := False,
         messages := [UserMsg ''top 10'', AiRef 0], heap := [new_ai_msg], inflight := []\<rparr>)"
    by simp
  from one_run_at_a_time [OF h] h s d show ?thesis
    by simp
qed

subsection \<open>The request\<close>

text \<open>
  C3. With an empty trimmed input or no datasource selected \<open>handleSend\<close> changes
  nothing and sends nothing. When it sends, the argument of \<open>dataChatApi.chat\<close> has
  exactly the members \<open>query\<close>, \<open>datasource_id\<close>, \<open>chat_id\<close> and \<open>model\<close>:
  the trimmed non-empty input, the selected datasource, the session's chat id, and the
  selected model or \<open>undefined\<close>. The body sent has no other member and always has
  \<open>query\<close> and \<open>datasource_id\<close>.
\<close>

theorem chat_request_fields:
  "(js_trim (inputText q) = [] \<or> \<not> truthy (currentDsId q) \<longrightarrow> handleSend q = (q, None))
   \<and> (handleSend p = (p', Some data) \<longrightarrow>
        map fst (own_entries data) = [''query'', ''datasource_id'', ''chat_id'', ''model'']
        \<and> get_opt data ''query'' = JStr (js_trim (inputText p)) \<and> js_trim (inputText p) \<noteq> []
        \<and> get_opt data ''datasource_id'' = currentDsId p \<and> truthy (currentDsId p)
        \<and> get_opt data ''chat_id'' = chatId_ref p
        \<and> get_opt data ''model'' = js_or (selectedModel p) JUndefined
        \<and> set (map fst (body (chat auth data)))
            \<subseteq> {''query'', ''datasource_id'', ''chat_id'', ''model''}
        \<and> {''query'', ''datasource_id''} \<subseteq> set (map fst (body (chat auth data))))"
proof (intro conjI impI)
  assume "js_trim (inputText q) = [] \<or> \<not> truthy (currentDsId q)"
  then show "handleSend q = (q, None)"
    by (auto simp: handleSend_def Let_def)
next
  assume a: "handleSend p = (p', Some data)"
  then have g: "js_trim (inputText p) \<noteq> []" "truthy (currentDsId p)"
    and d: "data = JObj [(''query'', JStr (js_trim (inputText p))),
                        (''datasource_id'', currentDsId p),
                        (''chat_id'', chatId_ref p),
                        (''model'', js_or (selectedModel p) JUndefined)]"
    by (auto simp: handleSend_def Let_def split: if_splits)
  from g have nu: "currentDsId p \<noteq> JUndefined"
    by auto
  show "js_trim (inputText p) \<noteq> []" "truthy (currentDsId p)"
    by (rule g)+
  show "map fst (own_entries data) = [''query'', ''datasource_id'', ''chat_id'', ''model'']"
    "get_opt data ''query'' = JStr (js_trim (inputText p))"
    "get_opt data ''datasource_id'' = currentDsId p"
    "get_opt data ''chat_id'' = chatId_ref p"
    "get_opt data ''model'' = js_or (selectedModel p) JUndefined"
    by (simp_all add: d get_opt_JObj)
  show "set (map fst (body (chat auth data)))
            \<subseteq> {''query'', ''datasource_id'', ''chat_id'', ''model''}"
    by (auto simp: d chat_def)
  show "{''query'', ''datasource_id''} \<subseteq> set (map fst (body (chat auth data)))"
    using nu by (simp add: d chat_def)
qed

theorem chat_request_fields_witness:
  "js_trim (inputText (initial_page\<lparr>inputText := ''  '', currentDsId := JNum 3\<rparr>)) = []
   \<and> handleSend (initial_page\<lparr>inputText := ''  '', currentDsId := JNum 3\<rparr>)
      = (initial_page\<lparr>inputText := ''  '', currentDsId := JNum 3\<rparr>, None)
   \<and> handleSend (initial_page\<lparr>inputText := '' top 10 '', currentDsId := JNum 3\<rparr>)
      = (initial_page\<lparr>currentDsId := JNum 3, streaming := True,
           messages := [UserMsg ''top 10'', AiRef 0], heap := [new_ai_msg], inflight := [0]\<rparr>,
         Some (JObj [(''query'', JStr ''top 10''), (''datasource_id'', JNum 3),
                     (''chat_id'', JNull), (''model'', JUndefined)]))
   \<and> map fst (body (chat [] (JObj [(''query'', JStr ''top 10''), (''datasource_id'', JNum 3),
                     (''chat_id'', JNull), (''model'', JUndefined)])))
      = [''query'', ''datasource_id'', ''chat_id'']"
proof -
  let ?q = "initial_page\<lparr>inputText := ''  '', currentDsId := JNum 3\<rparr>"
  let ?p = "initial_page\<lparr>inputText := '' top 10 '', currentDsId := JNum 3\<rparr>"
  let ?p' = "initial_page\<lparr>currentDsId := JNum 3, streaming := True,
           messages := [UserMsg ''top 10'', AiRef 0], heap := [new_ai_msg], inflight := [0]\<rparr>"
  let ?data = "JObj [(''query'', JStr ''top 10''), (''datasource_id'', JNum 3),
                     (''chat_id'', JNull), (''model'', JUndefined)]"
  have h1: "js_trim (inputText ?q) = []"
    by code_simp
  have h2: "handleSend ?p = (?p', Some ?data)"
    by code_simp
  have b: "map fst (body (chat [] ?data)) = [''query'', ''datasource_id'', ''chat_id'']"
    by (simp add: chat_def)
  from chat_request_fields [of ?q ?p ?p' ?data "[]"] h1 h2 b show ?thesis
    by simp
qed

subsection \<open>Selectable datasources\<close>

text \<open>
  C9. After \<open>loadDatasources\<close> on the freshly mounted page every selectable option was
  made from a datasource of the fetched list whose status is \<open>success\<close>.
\<close>

theorem dsOptions_all_success:
  assumes "dsOptions p = []" and "opt \<in> set (dsOptions (loadDatasources response p))"
  shows "\<exists>res items d. response = Some res
     \<and> js_or (get_opt res ''datasources'') (JArr []) = JArr items
     \<and> d \<in> set items \<and> get_opt d ''status'' = JStr ''success''
     \<and> opt = JObj [(''label'', get_opt d ''name''), (''value'', get_opt d ''id'')]"
proof -
  from assms obtain res opts where r: "response = Some res"
    and o: "datasource_options res = Some opts" and m: "opt \<in> set opts"
    by (auto simp: loadDatasources_def split: option.splits Option.bind_splits)
  from o have nn: "\<not> nullish res"
    by (auto simp: datasource_options_def get_prop_nullish)
  from o nn obtain items where i: "js_or (get_opt res ''datasources'') (JArr []) = JArr items"
    and opts: "opts = map (\<lambda>d. JObj [(''label'', get_opt d ''name''), (''value'', get_opt d ''id'')])
                 (filter (\<lambda>d. get_opt d ''status'' = JStr ''success'') items)"
    by (cases "js_or (get_opt res ''datasources'') (JArr [])")
       (auto simp: datasource_options_def get_prop_get_opt split: Option.bind_splits)
  from m opts obtain d where "d \<in> set items" "get_opt d ''status'' = JStr ''success''"
    "opt = JObj [(''label'', get_opt d ''name''), (''value'', get_opt d ''id'')]"
    by auto
  with r i show ?thesis by blast
qed

theorem dsOptions_all_success_witness:
  "dsOptions initial_page = []
   \<and> JObj [(''label'', JStr ''sales''), (''value'', JNum 1)]
       \<in> set (dsOptions (loadDatasources
            (Some (JObj [(''datasources'', JArr
               [JObj [(''id'', JNum 1), (''name'', JStr ''sales''), (''status'', JStr ''success'')],
                JObj [(''id'', JNum 2), (''name'', JStr ''crm''), (''status'', JStr ''failed'')]])]))
            initial_page))
   \<and> dsOptions (loadDatasources
            (Some (JObj [(''datasources'', JArr
               [JObj [(''id'', JNum 1), (''name'', JStr ''sales''), (''status'', JStr ''success'')],
                JObj [(''id'', JNum 2), (''name'', JStr ''crm''), (''status'', JStr ''failed'')]])]))
            initial_page)
      = [JObj [(''label'', JStr ''sales''), (''value'', JNum 1)]]
   \<and> (\<exists>d \<in> set [JObj [(''id'', JNum 1), (''name'', JStr ''sales''), (''status'', JStr ''success'')],
                JObj [(''id'', JNum 2), (''name'', JStr ''crm''), (''status'', JStr ''failed'')]].
         get_opt d ''status'' = JStr ''success''
         \<and> JObj [(''label'', JStr ''sales''), (''value'', JNum 1)]
            = JObj [(''label'', get_opt d ''name''), (''value'', get_opt d ''id'')])"
proof -
  let ?items = "[JObj [(''id'', JNum 1), (''name'', JStr ''sales''), (''status'', JStr ''success'')],
                JObj [(''id'', JNum 2), (''name'', JStr ''crm''), (''status'', JStr ''failed'')]]"
  let ?resp = "Some (JObj [(''datasources'', JArr ?items)])"
  let ?opt = "JObj [(''label'', JStr ''sales''), (''value'', JNum 1)]"
  have h1: "dsOptions initial_page = []"
    by (simp add: initial_page_def)
  have v: "dsOptions (loadDatasources ?resp initial_page) = [?opt]"
    by (simp add: loadDatasources_def datasource_options_def js_or_def get_opt_JObj)
  then have h2: "?opt \<in> set (dsOptions (loadDatasources ?resp initial_page))"
    by simp
  from dsOptions_all_success [OF h1 h2] h1 h2 v show ?thesis
    by (auto simp: js_or_def get_opt_JObj)
qed

end
